theory Spec2Isabelle
  imports Complex_Main "HOL-Library.Word" "HOL-Library.Multiset"
begin

section \<open>Smart Inventory: the product API and its description-generation client\<close>

text \<open>
  The backend is an Express application (the server file) over one PostgreSQL table
  \<open>products\<close>, and a client of a hosted text-generation service (the AI service
  module). Handlers are modelled as functions from the request's inputs and the store
  to the response, the new store and the lines written to the console. What the
  database and the remote service do at each call (fail, the time, the text returned)
  is an explicit argument.
\<close>

subsection \<open>JavaScript strings\<close>

text \<open>
  A JavaScript string is a sequence of 16-bit code units. \<open>ascii\<close> writes the
  literals of the source.
\<close>

type_synonym code_unit = "16 word"

type_synonym jsstring = "code_unit list"

definition ascii :: "string \<Rightarrow> jsstring" where
  "ascii s = map (\<lambda>c. of_nat (of_char c)) s"

text \<open>
  \<open>String.prototype.trim\<close> removes white space and line terminators from both ends:
  tab, line feed, vertical tab, form feed, carriage return, space, no-break space,
  U+1680, U+2000 to U+200A, U+2028, U+2029, U+202F, U+205F, U+3000 and U+FEFF.
\<close>

definition is_whitespace :: "code_unit \<Rightarrow> bool" where
  "is_whitespace c =
     (c \<in> set [0x0009, 0x000A, 0x000B, 0x000C, 0x000D, 0x0020, 0x00A0, 0x1680, 0x2028, 0x2029,
                0x202F, 0x205F, 0x3000, 0xFEFF] \<or>
      (0x2000 \<le> c \<and> c \<le> 0x200A))"

definition trim :: "jsstring \<Rightarrow> jsstring" where
  "trim s = rev (dropWhile is_whitespace (rev (dropWhile is_whitespace s)))"

text \<open>
  The driver sends a string as UTF-8, in which a surrogate code unit that is not part
  of a pair becomes U+FFFD. \<open>toWellFormed\<close> is the text that arrives, as a string;
  \<open>char_length\<close>, \<open>take_chars\<close> and \<open>drop_chars\<close> count its characters, a
  surrogate pair being one character.
\<close>

definition is_high :: "code_unit \<Rightarrow> bool" where
  "is_high c = (0xD800 \<le> c \<and> c \<le> 0xDBFF)"

definition is_low :: "code_unit \<Rightarrow> bool" where
  "is_low c = (0xDC00 \<le> c \<and> c \<le> 0xDFFF)"

fun toWellFormed :: "jsstring \<Rightarrow> jsstring" where
  "toWellFormed [] = []"
| "toWellFormed [c] = [if is_high c \<or> is_low c then 0xFFFD else c]"
| "toWellFormed (c # d # ds) =
     (if is_high c \<and> is_low d then c # d # toWellFormed ds
      else (if is_high c \<or> is_low c then 0xFFFD else c) # toWellFormed (d # ds))"

fun char_length :: "jsstring \<Rightarrow> nat" where
  "char_length [] = 0"
| "char_length [c] = 1"
| "char_length (c # d # ds) =
     (if is_high c \<and> is_low d then Suc (char_length ds) else Suc (char_length (d # ds)))"

fun take_chars :: "nat \<Rightarrow> jsstring \<Rightarrow> jsstring" where
  "take_chars 0 s = []"
| "take_chars (Suc n) [] = []"
| "take_chars (Suc n) [c] = [c]"
| "take_chars (Suc n) (c # d # ds) =
     (if is_high c \<and> is_low d then c # d # take_chars n ds else c # take_chars n (d # ds))"

fun drop_chars :: "nat \<Rightarrow> jsstring \<Rightarrow> jsstring" where
  "drop_chars 0 s = s"
| "drop_chars (Suc n) [] = []"
| "drop_chars (Suc n) [c] = []"
| "drop_chars (Suc n) (c # d # ds) =
     (if is_high c \<and> is_low d then drop_chars n ds else drop_chars n (d # ds))"

subsection \<open>JavaScript values, thrown errors, console\<close>

text \<open>
  A field of a parsed request body: absent (\<open>undefined\<close>), \<open>null\<close>, a boolean, a
  number, a string, an array or an object. The handlers only test such a value for
  truthiness and hand it to the database driver, which sends a text for it; so a
  number is given by its decimal text (\<open>Number.prototype.toString\<close>, \<open>0\<close> for both
  zeros), and an array or an object by the text that the driver makes of it (the array
  literal, the JSON text).
\<close>

datatype jsval =
    JUndefined
  | JNull
  | JBool bool
  | JNum jsstring
  | JStr jsstring
  | JArray jsstring
  | JObject jsstring

text \<open>JavaScript truthiness, as \<open>!name\<close> tests it.\<close>

fun truthy :: "jsval \<Rightarrow> bool" where
  "truthy JUndefined = False"
| "truthy JNull = False"
| "truthy (JBool b) = b"
| "truthy (JNum t) = (t \<noteq> ascii ''0'')"
| "truthy (JStr s) = (s \<noteq> [])"
| "truthy (JArray t) = True"
| "truthy (JObject t) = True"

text \<open>
  A parameter as the driver prepares it: \<open>null\<close> and \<open>undefined\<close> are both NULL, and
  every other value is sent as a text.
\<close>

fun prepareValue :: "jsval \<Rightarrow> jsstring option" where
  "prepareValue JUndefined = None"
| "prepareValue JNull = None"
| "prepareValue (JBool b) = Some (if b then ascii ''true'' else ascii ''false'')"
| "prepareValue (JNum t) = Some t"
| "prepareValue (JStr s) = Some s"
| "prepareValue (JArray t) = Some t"
| "prepareValue (JObject t) = Some t"


text \<open>A thrown value is an object whose \<open>message\<close> property may be absent.\<close>

datatype thrown = Thrown (message: "jsstring option")

text \<open>\<open>m || d\<close> where \<open>m\<close> is a message: \<open>undefined\<close> and the empty string are falsy.\<close>

fun or_default :: "jsstring option \<Rightarrow> jsstring \<Rightarrow> jsstring" where
  "or_default None d = d"
| "or_default (Some m) d = (if m = [] then d else m)"

text \<open>A message as the console or a template literal prints it.\<close>

fun show_message :: "jsstring option \<Rightarrow> jsstring" where
  "show_message None = ascii ''undefined''"
| "show_message (Some m) = m"

text \<open>A nullable text substituted in a template literal.\<close>

fun show_nullable :: "jsstring option \<Rightarrow> jsstring" where
  "show_nullable None = ascii ''null''"
| "show_nullable (Some t) = t"

datatype log_entry = ConsoleLog jsstring | ConsoleError jsstring

subsection \<open>The generation client (AI service module)\<close>

definition modelVersion :: jsstring where
  "modelVersion =
     ascii ''ibm-granite/granite-3.3-8b-instruct:618ecbe80773609e96ea19d8c96e708f6f2b368bb89be8fad509983194466bf8''"

record run_input =
  prompt :: jsstring
  max_new_tokens :: nat
  min_new_tokens :: nat
  temperature :: rat

text \<open>
  What \<open>replicate.run\<close> gives back: it throws, or it returns an output, which the
  client expects to be an array of strings, and which may be absent or a value of
  another kind, with no \<open>join\<close> method.
\<close>

datatype run_output = OutUndefined | OutNull | OutFragments "jsstring list" | OutOther

datatype run_result = RunThrew thrown | RunReturned run_output

text \<open>
  The remote service answers a call from the number of calls made before it, the model
  and the input. The calls made so far are the state of the client library.
\<close>

type_synonym service = "nat \<Rightarrow> jsstring \<Rightarrow> run_input \<Rightarrow> run_result"

type_synonym calls = "(jsstring \<times> run_input) list"

definition replicate_run :: "service \<Rightarrow> jsstring \<Rightarrow> run_input \<Rightarrow> calls \<Rightarrow> run_result \<times> calls" where
  "replicate_run svc model inp cs = (svc (length cs) model inp, cs @ [(model, inp)])"

definition nl :: string where
  "nl = [CHR 0x0A]"

definition prompt_head :: jsstring where
  "prompt_head = ascii
     (nl @ ''        Please create an attractive and persuasive product description for an e-commerce website.''
      @ nl @ ''        Use a professional and engaging tone.''
      @ nl @ ''        The description should be in English.''
      @ nl @ ''        Keep it to 2-3 short paragraphs.''
      @ nl
      @ nl @ ''        Product Information:''
      @ nl @ ''        - Product Name: '')"

definition prompt_middle :: jsstring where
  "prompt_middle = ascii (nl @ ''        - Characteristics/Attributes: '')"

definition prompt_tail :: jsstring where
  "prompt_tail = ascii (nl @ ''    '')"

text \<open>
  The template literal. The handler passes the name and the attributes of a row: a
  string, and a string or \<open>null\<close>.
\<close>

definition make_prompt :: "jsstring \<Rightarrow> jsstring option \<Rightarrow> jsstring" where
  "make_prompt productName attrs =
     prompt_head @ productName @ prompt_middle @ show_nullable attrs @ prompt_tail"

definition fallback_message :: jsstring where
  "fallback_message = ascii ''Failed to generate description from AI Replicate.''"

definition no_text_message :: jsstring where
  "no_text_message = ascii ''Replicate API did not return any text.''"

text \<open>The message of the TypeError that Node raises for \<open>output.join\<close> on an absent output.\<close>

definition join_of_undefined_message :: jsstring where
  "join_of_undefined_message =
     ascii (''Cannot read properties of undefined (reading '' @ [CHR 0x27] @ ''join'' @ [CHR 0x27] @ '')'')"

definition join_of_null_message :: jsstring where
  "join_of_null_message =
     ascii (''Cannot read properties of null (reading '' @ [CHR 0x27] @ ''join'' @ [CHR 0x27] @ '')'')"

definition join_not_a_function_message :: jsstring where
  "join_not_a_function_message = ascii ''output.join is not a function''"

text \<open>
  The body of the \<open>try\<close> block after the remote call: either a value thrown inside it
  or the text to return.
\<close>

fun try_body :: "run_result \<Rightarrow> thrown + jsstring" where
  "try_body (RunThrew e) = Inl e"
| "try_body (RunReturned OutUndefined) = Inl (Thrown (Some join_of_undefined_message))"
| "try_body (RunReturned OutNull) = Inl (Thrown (Some join_of_null_message))"
| "try_body (RunReturned OutOther) = Inl (Thrown (Some join_not_a_function_message))"
| "try_body (RunReturned (OutFragments output)) =
     (let description = concat output
      in if description = [] then Inl (Thrown (Some no_text_message))
         else Inr (trim description))"

text \<open>
  \<open>generateDescription\<close>: the result (the rethrown error, or the text), the calls made to
  the remote service, and the console lines.
\<close>

definition generateDescription ::
  "service \<Rightarrow> jsstring \<Rightarrow> jsstring option \<Rightarrow> calls \<Rightarrow> (thrown + jsstring) \<times> calls \<times> log_entry list" where
  "generateDescription svc productName attrs cs =
     (let inp = \<lparr>prompt = make_prompt productName attrs, max_new_tokens = 300,
                 min_new_tokens = 50, temperature = 8 / 10\<rparr>;
          sending = ConsoleLog (ascii ''[AI Service] Sending prompt to Replicate (IBM Granite)...'');
          (res, cs') = replicate_run svc modelVersion inp cs
      in case try_body res of
           Inr t \<Rightarrow>
             (Inr t, cs',
              [sending,
               ConsoleLog (ascii ''[AI Service] Successfully received description from Replicate.'')])
         | Inl error \<Rightarrow>
             (Inl (Thrown (Some (or_default (message error) fallback_message))), cs',
              [sending,
               ConsoleError (ascii ''[AI Service] Error calling Replicate: '' @
                             show_message (message error))]))"

text \<open>The input object that \<open>generateDescription\<close> sends, and the answer it gets to it.\<close>

definition input_for :: "jsstring \<Rightarrow> jsstring option \<Rightarrow> run_input" where
  "input_for productName attrs =
     \<lparr>prompt = make_prompt productName attrs, max_new_tokens = 300, min_new_tokens = 50,
      temperature = 8 / 10\<rparr>"

definition answer :: "service \<Rightarrow> jsstring \<Rightarrow> jsstring option \<Rightarrow> calls \<Rightarrow> run_result" where
  "answer svc productName attrs cs = svc (length cs) modelVersion (input_for productName attrs)"

subsection \<open>The products table\<close>

text \<open>
  The table that \<open>initializeDatabase\<close> creates:
  \<^verbatim>\<open>id SERIAL PRIMARY KEY, name VARCHAR(100) NOT NULL, attributes TEXT,
  description TEXT, created_at TIMESTAMP DEFAULT CURRENT_TIMESTAMP\<close>.
  The id is a signed 32-bit integer, read with \<open>sint\<close>. A nullable column is an
  option. Texts are held as the strings that the driver gives back for them.
  \<open>products_id_seq\<close> is the last value that the sequence behind the SERIAL column has
  issued, 0 before the first; it issues no value beyond 2147483647. The encoding of the
  database is UTF8, so the length of a text is counted in characters.
\<close>

type_synonym int4 = "32 word"

record product =
  id_col :: int4
  name :: jsstring
  attributes :: "jsstring option"
  description :: "jsstring option"
  created_at :: int

record store =
  products :: "product list"
  products_id_seq :: nat

definition empty_store :: store where
  "empty_store = \<lparr>products = [], products_id_seq = 0\<rparr>"

text \<open>
  The conditions of one \<open>db.query\<close> call: a failure of the database that neither the
  table nor the parameters determine (the connection, the server); the clock of the
  server; and the integer input syntax of the server, which differs between its
  versions: for the text of a parameter, the integer that it denotes, of any size, or
  the message of the error raised for it.
\<close>

record db_env =
  fault :: "thrown option"
  now :: int
  int4_input :: "jsstring \<Rightarrow> jsstring + int"

text \<open>
  The five statements that the handlers send, with their parameters. The \<open>:id\<close> of a
  path is a string.
\<close>

datatype statement =
    InsertProduct jsval jsval
  | SelectAllByIdDesc
  | SelectById jsstring
  | UpdateDescription jsval jsstring
  | DeleteById jsstring

definition nul_message :: jsstring where
  "nul_message = ascii ''invalid byte sequence for encoding \"UTF8\": 0x00''"

definition too_long_message :: jsstring where
  "too_long_message = ascii ''value too long for type character varying(100)''"

definition not_null_message :: jsstring where
  "not_null_message =
     ascii ''null value in column \"name\" of relation \"products\" violates not-null constraint''"

definition sequence_message :: jsstring where
  "sequence_message =
     ascii ''nextval: reached maximum value of sequence \"products_id_seq\" (2147483647)''"

definition out_of_range_message :: "jsstring \<Rightarrow> jsstring" where
  "out_of_range_message t = ascii ''value \"'' @ t @ ascii ''\" is out of range for type integer''"

text \<open>A text parameter as the server takes it: a text cannot hold the character NUL.\<close>

definition text_in :: "jsstring \<Rightarrow> thrown + jsstring" where
  "text_in t =
     (let u = toWellFormed t
      in if 0 \<in> set u then Inl (Thrown (Some nul_message)) else Inr u)"

definition param_in :: "jsval \<Rightarrow> thrown + jsstring option" where
  "param_in v =
     (case prepareValue v of
        None \<Rightarrow> Inr None
      | Some t \<Rightarrow> (case text_in t of Inl e \<Rightarrow> Inl e | Inr u \<Rightarrow> Inr (Some u)))"

text \<open>An id parameter as the server takes it: the integer must fit the 32 bits of the column.\<close>

definition read_id :: "db_env \<Rightarrow> jsstring \<Rightarrow> thrown + int4" where
  "read_id env t =
     (case int4_input env t of
        Inl m \<Rightarrow> Inl (Thrown (Some m))
      | Inr n \<Rightarrow>
          if - 2147483648 \<le> n \<and> n \<le> 2147483647 then Inr (word_of_int n)
          else Inl (Thrown (Some (out_of_range_message t))))"

text \<open>
  Storing into \<open>VARCHAR(100)\<close>: a value of more than 100 characters is an error, unless
  the excess is all spaces, which are cut off.
\<close>

definition varchar_100 :: "jsstring \<Rightarrow> thrown + jsstring" where
  "varchar_100 v =
     (if char_length v \<le> 100 then Inr v
      else if list_all (\<lambda>c. c = 0x20) (drop_chars 100 v) then Inr (take_chars 100 v)
      else Inl (Thrown (Some too_long_message)))"

definition set_description :: "jsstring option \<Rightarrow> int4 \<Rightarrow> product \<Rightarrow> product" where
  "set_description d i r = (if id_col r = i then r\<lparr>description := d\<rparr> else r)"

text \<open>\<open>ORDER BY id DESC\<close>.\<close>

definition order_by_id_desc :: "product list \<Rightarrow> product list" where
  "order_by_id_desc rs = rev (sort_key (\<lambda>r. sint (id_col r)) rs)"

text \<open>
  \<open>INSERT INTO products (name, attributes) VALUES ($1, $2) RETURNING *\<close>. The
  parameters are read and the name is fitted to its column before the statement runs;
  then the sequence gives the id, and the row is checked and stored. A name that is
  NULL is refused after the sequence has given its value.
\<close>

definition insert_product :: "db_env \<Rightarrow> jsval \<Rightarrow> jsval \<Rightarrow> store \<Rightarrow> (thrown + product list) \<times> store" where
  "insert_product env nm attrs s =
     (case param_in nm of
        Inl e \<Rightarrow> (Inl e, s)
      | Inr n \<Rightarrow>
          (case param_in attrs of
             Inl e \<Rightarrow> (Inl e, s)
           | Inr a \<Rightarrow>
               (case (case n of None \<Rightarrow> Inr None
                              | Some v \<Rightarrow> (case varchar_100 v of Inl e \<Rightarrow> Inl e
                                                               | Inr v' \<Rightarrow> Inr (Some v'))) of
                  Inl e \<Rightarrow> (Inl e, s)
                | Inr n' \<Rightarrow>
                    if products_id_seq s \<ge> 2147483647
                    then (Inl (Thrown (Some sequence_message)), s)
                    else
                      (let i = products_id_seq s + 1
                       in case n' of
                            None \<Rightarrow>
                              (Inl (Thrown (Some not_null_message)), s\<lparr>products_id_seq := i\<rparr>)
                          | Some v' \<Rightarrow>
                              (let row = \<lparr>id_col = of_nat i, name = v', attributes = a,
                                          description = None, created_at = now env\<rparr>
                               in (Inr [row],
                                   \<lparr>products = products s @ [row], products_id_seq = i\<rparr>))))))"

text \<open>\<open>SELECT * FROM products WHERE id = $1\<close>\<close>

definition select_by_id :: "db_env \<Rightarrow> jsstring \<Rightarrow> store \<Rightarrow> (thrown + product list) \<times> store" where
  "select_by_id env t s =
     (case read_id env t of
        Inl e \<Rightarrow> (Inl e, s)
      | Inr i \<Rightarrow> (Inr (filter (\<lambda>r. id_col r = i) (products s)), s))"

text \<open>\<open>UPDATE products SET description = $1 WHERE id = $2 RETURNING *\<close>\<close>

definition update_description ::
  "db_env \<Rightarrow> jsval \<Rightarrow> jsstring \<Rightarrow> store \<Rightarrow> (thrown + product list) \<times> store" where
  "update_description env d t s =
     (case param_in d of
        Inl e \<Rightarrow> (Inl e, s)
      | Inr d' \<Rightarrow>
          (case read_id env t of
             Inl e \<Rightarrow> (Inl e, s)
           | Inr i \<Rightarrow>
               (let rs = map (set_description d' i) (products s)
                in (Inr (filter (\<lambda>r. id_col r = i) rs), s\<lparr>products := rs\<rparr>))))"

text \<open>\<open>DELETE FROM products WHERE id = $1 RETURNING *\<close>\<close>

definition delete_by_id :: "db_env \<Rightarrow> jsstring \<Rightarrow> store \<Rightarrow> (thrown + product list) \<times> store" where
  "delete_by_id env t s =
     (case read_id env t of
        Inl e \<Rightarrow> (Inl e, s)
      | Inr i \<Rightarrow>
          (Inr (filter (\<lambda>r. id_col r = i) (products s)),
           s\<lparr>products := filter (\<lambda>r. id_col r \<noteq> i) (products s)\<rparr>))"

text \<open>
  \<open>db.query\<close>: the rows returned or the error thrown, and the store afterwards.
\<close>

definition db_query :: "db_env \<Rightarrow> statement \<Rightarrow> store \<Rightarrow> (thrown + product list) \<times> store" where
  "db_query env stmt s =
     (case fault env of
        Some e \<Rightarrow> (Inl e, s)
      | None \<Rightarrow>
          (case stmt of
             InsertProduct nm attrs \<Rightarrow> insert_product env nm attrs s
           | SelectAllByIdDesc \<Rightarrow> (Inr (order_by_id_desc (products s)), s)
           | SelectById t \<Rightarrow> select_by_id env t s
           | UpdateDescription d t \<Rightarrow> update_description env d t s
           | DeleteById t \<Rightarrow> delete_by_id env t s))"

text \<open>
  What the primary key and the sequence guarantee of a table that only these statements
  have written: no two rows share an id, and no id lies beyond the sequence.
\<close>

definition wf_store :: "store \<Rightarrow> bool" where
  "wf_store s =
     (distinct (map id_col (products s)) \<and>
      list_all (\<lambda>r. sint (id_col r) \<le> int (products_id_seq s)) (products s))"

definition lookup :: "store \<Rightarrow> int4 \<Rightarrow> product option" where
  "lookup s i = find (\<lambda>r. id_col r = i) (products s)"

subsection \<open>The HTTP handlers (server file)\<close>

datatype body =
    JsonError jsstring
  | JsonMessage jsstring
  | JsonProduct product
  | JsonProducts "product list"
  | JsonUndefined
  | Text jsstring

record response =
  status :: nat
  body :: body

type_synonym handled = "response \<times> store \<times> log_entry list"

text \<open>\<open>res.json(result.rows[0])\<close>: the first row, or \<open>undefined\<close> when there is none.\<close>

fun first_row :: "product list \<Rightarrow> body" where
  "first_row [] = JsonUndefined"
| "first_row (r # rs) = JsonProduct r"

text \<open>The \<open>catch\<close> branch shared by the five CRUD handlers.\<close>

definition server_error :: "thrown \<Rightarrow> store \<Rightarrow> handled" where
  "server_error err s =
     (\<lparr>status = 500, body = Text (ascii ''Server Error'')\<rparr>, s,
      [ConsoleError (show_message (message err))])"

definition not_found :: "store \<Rightarrow> log_entry list \<Rightarrow> handled" where
  "not_found s lg = (\<lparr>status = 404, body = JsonError (ascii ''Product not found'')\<rparr>, s, lg)"

text \<open>\<open>POST /api/products\<close>\<close>

definition post_products :: "db_env \<Rightarrow> jsval \<Rightarrow> jsval \<Rightarrow> store \<Rightarrow> handled" where
  "post_products env nm attrs s =
     (if \<not> truthy nm \<or> \<not> truthy attrs
      then (\<lparr>status = 400, body = JsonError (ascii ''Name and attributes are required'')\<rparr>, s, [])
      else (case db_query env (InsertProduct nm attrs) s of
              (Inl err, s') \<Rightarrow> server_error err s'
            | (Inr newProduct, s') \<Rightarrow> (\<lparr>status = 201, body = first_row newProduct\<rparr>, s', [])))"

text \<open>\<open>GET /api/products\<close>\<close>

definition get_products :: "db_env \<Rightarrow> store \<Rightarrow> handled" where
  "get_products env s =
     (case db_query env SelectAllByIdDesc s of
        (Inl err, s') \<Rightarrow> server_error err s'
      | (Inr allProducts, s') \<Rightarrow> (\<lparr>status = 200, body = JsonProducts allProducts\<rparr>, s', []))"

text \<open>\<open>GET /api/products/:id\<close>\<close>

definition get_product :: "db_env \<Rightarrow> jsstring \<Rightarrow> store \<Rightarrow> handled" where
  "get_product env i s =
     (case db_query env (SelectById i) s of
        (Inl err, s') \<Rightarrow> server_error err s'
      | (Inr rs, s') \<Rightarrow>
          (if length rs = 0 then not_found s' []
           else (\<lparr>status = 200, body = first_row rs\<rparr>, s', [])))"

text \<open>\<open>PUT /api/products/:id\<close>\<close>

definition put_product :: "db_env \<Rightarrow> jsstring \<Rightarrow> jsval \<Rightarrow> store \<Rightarrow> handled" where
  "put_product env i d s =
     (case db_query env (UpdateDescription d i) s of
        (Inl err, s') \<Rightarrow> server_error err s'
      | (Inr updateProduct, s') \<Rightarrow>
          (if length updateProduct = 0 then not_found s' []
           else (\<lparr>status = 200, body = first_row updateProduct\<rparr>, s', [])))"

text \<open>\<open>DELETE /api/products/:id\<close>\<close>

definition delete_product :: "db_env \<Rightarrow> jsstring \<Rightarrow> store \<Rightarrow> handled" where
  "delete_product env i s =
     (case db_query env (DeleteById i) s of
        (Inl err, s') \<Rightarrow> server_error err s'
      | (Inr deleteProduct, s') \<Rightarrow>
          (if length deleteProduct = 0 then not_found s' []
           else (\<lparr>status = 200, body = JsonMessage (ascii ''Product successfully deleted'')\<rparr>,
                 s', [])))"

text \<open>
  \<open>POST /api/products/:id/generate-description\<close>. Its \<open>catch\<close> branch answers with
  the message of whatever was thrown, by the AI service or by the database.
\<close>

definition generation_error :: "thrown \<Rightarrow> store \<Rightarrow> log_entry list \<Rightarrow> handled" where
  "generation_error err s lg =
     (\<lparr>status = 500,
       body = JsonError (or_default (message err)
                (ascii ''Server Error: Failed to generate description''))\<rparr>,
      s,
      lg @ [ConsoleError (ascii ''[API] Error generating description: '' @
                          show_message (message err))])"

definition post_generate_description ::
  "db_env \<Rightarrow> service \<Rightarrow> db_env \<Rightarrow> jsstring \<Rightarrow> store \<Rightarrow> calls \<Rightarrow> handled \<times> calls" where
  "post_generate_description env1 svc env2 i s cs =
     (case db_query env1 (SelectById i) s of
        (Inl err, s1) \<Rightarrow> (generation_error err s1 [], cs)
      | (Inr productResult, s1) \<Rightarrow>
          (case productResult of
             [] \<Rightarrow> (not_found s1 [], cs)
           | product # _ \<Rightarrow>
               (let calling = ConsoleLog (ascii ''[API] Calling AI Service for product: '' @
                                          name product)
                in case generateDescription svc (name product) (attributes product) cs of
                     (Inl err, cs', lg) \<Rightarrow> (generation_error err s1 (calling # lg), cs')
                   | (Inr t, cs', lg) \<Rightarrow>
                       (case db_query env2 (UpdateDescription (JStr t) i) s1 of
                          (Inl err, s2) \<Rightarrow> (generation_error err s2 (calling # lg), cs')
                        | (Inr updateProduct, s2) \<Rightarrow>
                            ((\<lparr>status = 200, body = first_row updateProduct\<rparr>, s2,
                              calling # lg), cs')))))"

subsection \<open>Example inputs\<close>

text \<open>A server that reads the decimal numerals without sign.\<close>

definition is_digit :: "code_unit \<Rightarrow> bool" where
  "is_digit c = (0x30 \<le> c \<and> c \<le> 0x39)"

definition decimal_input :: "jsstring \<Rightarrow> jsstring + int" where
  "decimal_input t =
     (if t \<noteq> [] \<and> list_all is_digit t
      then Inr (foldl (\<lambda>a c. 10 * a + (uint c - 48)) 0 t)
      else Inl (ascii ''invalid input syntax for type integer: \"'' @ t @ ascii ''\"''))"

definition healthy :: "int \<Rightarrow> db_env" where
  "healthy t = \<lparr>fault = None, now = t, int4_input = decimal_input\<rparr>"

definition broken :: "jsstring \<Rightarrow> db_env" where
  "broken m = \<lparr>fault = Some (Thrown (Some m)), now = 0, int4_input = decimal_input\<rparr>"

definition silent_service :: service where
  "silent_service n model inp = RunReturned (OutFragments [])"

definition failing_service :: service where
  "failing_service n model inp = RunThrew (Thrown (Some (ascii ''Prediction failed'')))"

definition nameless_failing_service :: service where
  "nameless_failing_service n model inp = RunThrew (Thrown None)"

definition absent_service :: service where
  "absent_service n model inp = RunReturned OutUndefined"

definition null_service :: service where
  "null_service n model inp = RunReturned OutNull"

definition shirt_service :: service where
  "shirt_service n model inp = RunReturned (OutFragments [ascii ''Great '', ascii ''shirt.''])"

text \<open>A service whose text has white space of several kinds at both ends.\<close>

definition padded_first :: jsstring where
  "padded_first = [0x0020, 0xFEFF, 0x000A] @ ascii ''Great ''"

definition padded_second :: jsstring where
  "padded_second = ascii ''shirt.'' @ [0x2028, 0x3000, 0x00A0, 0x2003, 0x0009]"

definition padded_fragments :: "jsstring list" where
  "padded_fragments = [padded_first, padded_second]"

definition padded_service :: service where
  "padded_service n model inp = RunReturned (OutFragments padded_fragments)"

definition stussy :: product where
  "stussy = \<lparr>id_col = 1, name = ascii ''Stussy 8-Ball Tee'',
              attributes = Some (ascii ''Cotton, Black, Size L''),
              description = Some (ascii ''A tee.''), created_at = 0\<rparr>"

definition stussy_store :: store where
  "stussy_store = \<lparr>products = [stussy], products_id_seq = 1\<rparr>"




definition example_row :: "int4 \<Rightarrow> jsstring \<Rightarrow> product" where
  "example_row k nm =
     \<lparr>id_col = k, name = nm, attributes = Some (ascii ''Cotton''), description = None,
      created_at = sint k\<rparr>"

section \<open>Properties\<close>

subsection \<open>Strings\<close>

lemma ascii_unit: "(of_nat (of_char c) :: 16 word) \<le> 0xFF"
proof -
  have le: "(of_char c :: nat) \<le> 255"
    using nat_of_char_less_256 [of c] by linarith
  then have "(of_char c :: nat) < 65536" by linarith
  then have u: "unat (of_nat (of_char c) :: 16 word) = of_char c"
    by (simp add: unat_of_nat)
  show ?thesis
    unfolding word_le_nat_alt u using le by simp
qed

lemma ascii_not_surrogate: "list_all (\<lambda>c. \<not> is_high c \<and> \<not> is_low c) (ascii s)"
proof -
  have "\<not> is_high (of_nat (of_char c)) \<and> \<not> is_low (of_nat (of_char c))" for c
    using ascii_unit [of c] by (auto simp: is_high_def is_low_def word_le_nat_alt)
  then show ?thesis by (simp add: ascii_def list_all_iff)
qed

lemma ascii_append: "ascii (a @ b) = ascii a @ ascii b"
  by (simp add: ascii_def)

lemma ascii_empty: "ascii s = [] \<longleftrightarrow> s = []"
  by (simp add: ascii_def)

lemma toWellFormed_nul: "0 \<in> set (toWellFormed s) \<longleftrightarrow> 0 \<in> set s"
  by (induction s rule: toWellFormed.induct) (auto simp: is_high_def is_low_def)

lemma toWellFormed_empty: "toWellFormed s = [] \<longleftrightarrow> s = []"
  by (induction s rule: toWellFormed.induct) auto

lemma toWellFormed_plain:
  "list_all (\<lambda>c. \<not> is_high c \<and> \<not> is_low c) s \<Longrightarrow> toWellFormed s = s"
  by (induction s rule: toWellFormed.induct) auto

lemma char_length_plain:
  "list_all (\<lambda>c. \<not> is_high c \<and> \<not> is_low c) s \<Longrightarrow> char_length s = length s"
  by (induction s rule: char_length.induct) auto

lemma drop_chars_plain:
  "list_all (\<lambda>c. \<not> is_high c \<and> \<not> is_low c) s \<Longrightarrow> drop_chars n s = drop n s"
  by (induction n s rule: drop_chars.induct) auto

lemma take_chars_plain:
  "list_all (\<lambda>c. \<not> is_high c \<and> \<not> is_low c) s \<Longrightarrow> take_chars n s = take n s"
  by (induction n s rule: take_chars.induct) auto



lemma toWellFormed_ascii: "toWellFormed (ascii s) = ascii s"
  by (rule toWellFormed_plain) (rule ascii_not_surrogate)

lemma char_length_ascii: "char_length (ascii s) = length s"
  by (simp add: char_length_plain [OF ascii_not_surrogate]) (simp add: ascii_def)

text \<open>What trimming does, without reference to how it is computed.\<close>

lemma last_dropWhile: "dropWhile P xs \<noteq> [] \<Longrightarrow> last (dropWhile P xs) = last xs"
  by (induction xs) (auto split: if_splits)

lemma trim_decomposition:
  "\<exists>l r. s = l @ trim s @ r \<and> list_all is_whitespace l \<and> list_all is_whitespace r"
proof -
  let ?m = "dropWhile is_whitespace s"
  let ?l = "takeWhile is_whitespace s"
  let ?r = "rev (takeWhile is_whitespace (rev ?m))"
  have "trim s @ ?r =
      rev (takeWhile is_whitespace (rev ?m) @ dropWhile is_whitespace (rev ?m))"
    by (simp only: trim_def rev_append)
  also have "\<dots> = rev (rev ?m)" by (simp only: takeWhile_dropWhile_id)
  also have "\<dots> = ?m" by (simp only: rev_rev_ident)
  finally have m: "?m = trim s @ ?r" by (rule sym)
  have "s = ?l @ ?m" by simp
  with m have "s = ?l @ trim s @ ?r" by simp
  moreover have "list_all is_whitespace ?l"
    by (simp add: list_all_iff) (meson set_takeWhileD)
  moreover have "list_all is_whitespace ?r"
    by (simp add: list_all_iff) (meson set_takeWhileD)
  ultimately show ?thesis by blast
qed

lemma trim_ends:
  assumes "trim s \<noteq> []"
  shows "\<not> is_whitespace (hd (trim s)) \<and> \<not> is_whitespace (last (trim s))"
proof -
  let ?m = "dropWhile is_whitespace s"
  let ?d = "dropWhile is_whitespace (rev ?m)"
  from assms have d: "?d \<noteq> []" by (simp add: trim_def)
  then have m: "?m \<noteq> []" by (auto dest: set_dropWhileD)
  have "last (trim s) = hd ?d" using d by (simp add: trim_def last_rev)
  moreover have "\<not> is_whitespace (hd ?d)" using d by (rule hd_dropWhile)
  moreover have "hd (trim s) = last ?d" using d by (simp add: trim_def hd_rev)
  moreover have "last ?d = last (rev ?m)" using d by (rule last_dropWhile)
  moreover have "last (rev ?m) = hd ?m" using m by (simp add: last_rev)
  moreover have "\<not> is_whitespace (hd ?m)" using m by (rule hd_dropWhile)
  ultimately show ?thesis by simp
qed

subsection \<open>Parameters\<close>

lemma or_default_nonempty: "d \<noteq> [] \<Longrightarrow> or_default m d \<noteq> []"
  by (cases m) auto

lemma text_in_ok: "0 \<notin> set t \<Longrightarrow> text_in t = Inr (toWellFormed t)"
  by (simp add: text_in_def toWellFormed_nul)



lemma param_in_string:
  "0 \<notin> set t \<Longrightarrow> param_in (JStr t) = Inr (Some (toWellFormed t))"
  by (simp add: param_in_def text_in_ok)

lemma param_in_truthy: "truthy v \<Longrightarrow> param_in v \<noteq> Inr None"
  by (cases v) (auto simp: param_in_def split: sum.splits)

lemma sint_int4_range: "- 2147483648 \<le> sint (k :: int4) \<and> sint k \<le> 2147483647"
  using sint_ge [of k] sint_lt [of k] by simp

lemma sint_word_of_int4:
  "- 2147483648 \<le> n \<Longrightarrow> n \<le> 2147483647 \<Longrightarrow> sint (word_of_int n :: int4) = n"
  by (simp add: sint_sbintrunc' signed_take_bit_int_eq_self)

lemma sint_of_nat4: "n \<le> 2147483647 \<Longrightarrow> sint (of_nat n :: int4) = int n"
  using sint_word_of_int4 [of "int n"] by simp

lemma read_id_ok: "int4_input env t = Inr (sint k) \<Longrightarrow> read_id env t = Inr k"
  using sint_int4_range [of k] by (simp add: read_id_def)

lemma read_id_out_of_range:
  "int4_input env t = Inr n \<Longrightarrow> n < - 2147483648 \<or> 2147483647 < n \<Longrightarrow>
   read_id env t = Inl (Thrown (Some (out_of_range_message t)))"
  by (auto simp: read_id_def)

subsection \<open>Lists of rows\<close>

lemma filter_find_Some: "find P xs = Some r \<Longrightarrow> \<exists>rs. filter P xs = r # rs"
  by (induction xs) (auto split: if_splits)

lemma filter_find_None: "find P xs = None \<Longrightarrow> filter P xs = []"
  by (induction xs) (auto split: if_splits)

lemma lookup_id_col: "lookup s i = Some r \<Longrightarrow> id_col r = i"
  by (auto simp: lookup_def find_Some_iff)

lemma lookup_in_products: "lookup s i = Some r \<Longrightarrow> r \<in> set (products s)"
  by (auto simp: lookup_def find_Some_iff)

lemma find_set_description_same:
  "find (\<lambda>r. id_col r = i) xs = Some r \<Longrightarrow>
   find (\<lambda>r. id_col r = i) (map (set_description d i) xs) = Some (r\<lparr>description := d\<rparr>)"
  by (induction xs) (auto simp: set_description_def split: if_splits)



lemma map_id_col_set_description:
  "map id_col (map (set_description d i) xs) = map id_col xs"
  by (induction xs) (auto simp: set_description_def)

lemma find_filter_removed:
  "find (\<lambda>r. id_col r = i) (filter (\<lambda>r. id_col r \<noteq> i) xs) = None"
  by (induction xs) auto

lemma find_filter_kept:
  "j \<noteq> i \<Longrightarrow>
   find (\<lambda>r. id_col r = j) (filter (\<lambda>r. id_col r \<noteq> i) xs) = find (\<lambda>r. id_col r = j) xs"
  by (induction xs) auto

lemma filter_absent_all:
  "find (\<lambda>r. id_col r = i) xs = None \<Longrightarrow> filter (\<lambda>r. id_col r \<noteq> i) xs = xs"
  by (induction xs) (auto split: if_splits)

lemma select_present:
  "lookup s i = Some r \<Longrightarrow> \<exists>rs. filter (\<lambda>r. id_col r = i) (products s) = r # rs"
  unfolding lookup_def by (rule filter_find_Some)

lemma select_absent:
  "lookup s i = None \<Longrightarrow> filter (\<lambda>r. id_col r = i) (products s) = []"
  unfolding lookup_def by (rule filter_find_None)

lemma update_present:
  "lookup s i = Some r \<Longrightarrow>
   \<exists>rs. filter (\<lambda>r. id_col r = i) (map (set_description d i) (products s)) =
           r\<lparr>description := d\<rparr> # rs"
  unfolding lookup_def by (rule filter_find_Some) (rule find_set_description_same)

lemma lookup_after_update:
  "lookup s i = Some r \<Longrightarrow>
   lookup (s\<lparr>products := map (set_description d i) (products s)\<rparr>) i = Some (r\<lparr>description := d\<rparr>)"
  by (simp add: lookup_def find_set_description_same)


lemma lookup_after_delete:
  "lookup (s\<lparr>products := filter (\<lambda>r. id_col r \<noteq> i) (products s)\<rparr>) i = None"
  by (simp add: lookup_def find_filter_removed)

lemma lookup_after_delete_other:
  "j \<noteq> i \<Longrightarrow>
   lookup (s\<lparr>products := filter (\<lambda>r. id_col r \<noteq> i) (products s)\<rparr>) j = lookup s j"
  by (simp add: lookup_def find_filter_kept)

subsection \<open>Statements\<close>

lemma db_query_fault: "fault env = Some e \<Longrightarrow> db_query env stmt s = (Inl e, s)"
  by (simp add: db_query_def)

lemma db_query_select_by_id:
  "fault env = None \<Longrightarrow> read_id env t = Inr i \<Longrightarrow>
   db_query env (SelectById t) s = (Inr (filter (\<lambda>r. id_col r = i) (products s)), s)"
  by (simp add: db_query_def select_by_id_def)

lemma db_query_select_all:
  "fault env = None \<Longrightarrow>
   db_query env SelectAllByIdDesc s = (Inr (order_by_id_desc (products s)), s)"
  by (simp add: db_query_def)

lemma db_query_update:
  "fault env = None \<Longrightarrow> param_in d = Inr d' \<Longrightarrow> read_id env t = Inr i \<Longrightarrow>
   db_query env (UpdateDescription d t) s =
     (Inr (filter (\<lambda>r. id_col r = i) (map (set_description d' i) (products s))),
      s\<lparr>products := map (set_description d' i) (products s)\<rparr>)"
  by (simp add: db_query_def update_description_def Let_def)

lemma db_query_delete:
  "fault env = None \<Longrightarrow> read_id env t = Inr i \<Longrightarrow>
   db_query env (DeleteById t) s =
     (Inr (filter (\<lambda>r. id_col r = i) (products s)),
      s\<lparr>products := filter (\<lambda>r. id_col r \<noteq> i) (products s)\<rparr>)"
  by (simp add: db_query_def delete_by_id_def)

lemma db_query_insert:
  "fault env = None \<Longrightarrow> param_in nm = Inr (Some v) \<Longrightarrow> param_in attrs = Inr a \<Longrightarrow>
   char_length v \<le> 100 \<Longrightarrow> products_id_seq s < 2147483647 \<Longrightarrow>
   db_query env (InsertProduct nm attrs) s =
     (Inr [\<lparr>id_col = of_nat (products_id_seq s + 1), name = v, attributes = a,
            description = None, created_at = now env\<rparr>],
      \<lparr>products = products s @
         [\<lparr>id_col = of_nat (products_id_seq s + 1), name = v, attributes = a,
           description = None, created_at = now env\<rparr>],
       products_id_seq = products_id_seq s + 1\<rparr>)"
  by (simp add: db_query_def insert_product_def Let_def varchar_100_def)

text \<open>
  A statement that fails leaves the store as it was; the one exception, an INSERT of a
  NULL name, is one that the create handler never sends.
\<close>

lemma insert_product_failed:
  "insert_product env nm attrs s = (Inl e, s') \<Longrightarrow> truthy nm \<Longrightarrow> s' = s"
  using param_in_truthy [of nm]
  by (auto simp: insert_product_def Let_def split: sum.splits option.splits if_splits)

lemma db_query_failed_store:
  assumes "db_query env stmt s = (Inl e, s')"
    and "\<And>nm attrs. stmt = InsertProduct nm attrs \<Longrightarrow> truthy nm"
  shows "s' = s"
proof (cases "fault env")
  case (Some f)
  with assms(1) show ?thesis by (simp add: db_query_def)
next
  case None
  show ?thesis
  proof (cases stmt)
    case (InsertProduct nm attrs)
    with None assms(1) have "insert_product env nm attrs s = (Inl e, s')"
      by (simp add: db_query_def)
    then show ?thesis using assms(2) [OF InsertProduct] by (rule insert_product_failed)
  next
    case SelectAllByIdDesc
    with None assms(1) show ?thesis by (simp add: db_query_def)
  next
    case (SelectById t)
    with None assms(1) show ?thesis
      by (auto simp: db_query_def select_by_id_def split: sum.splits)
  next
    case (UpdateDescription d t)
    with None assms(1) show ?thesis
      by (auto simp: db_query_def update_description_def Let_def split: sum.splits)
  next
    case (DeleteById t)
    with None assms(1) show ?thesis
      by (auto simp: db_query_def delete_by_id_def split: sum.splits)
  qed
qed

lemma db_query_failed:
  assumes "fst (db_query env stmt s) = Inl err"
    and "\<And>nm attrs. stmt = InsertProduct nm attrs \<Longrightarrow> truthy nm"
  shows "db_query env stmt s = (Inl err, s)"
proof (cases "db_query env stmt s")
  case (Pair res s')
  with assms(1) have "db_query env stmt s = (Inl err, s')" by simp
  from this db_query_failed_store [OF this assms(2)] show ?thesis by simp
qed

text \<open>A name whose excess over 100 characters is spaces only is cut to 100 characters.\<close>

lemma varchar_100_trailing_spaces:
  "varchar_100 (replicate 100 0x61 @ [0x20, 0x20]) = Inr (replicate 100 0x61)"
proof -
  have plain: "list_all (\<lambda>c. \<not> is_high c \<and> \<not> is_low c) (replicate 100 0x61 @ [0x20, 0x20])"
    by (simp add: list_all_iff is_high_def is_low_def)
  show ?thesis
    by (simp add: varchar_100_def char_length_plain [OF plain] drop_chars_plain [OF plain]
          take_chars_plain [OF plain])
qed

lemma insert_product_Inr:
  "insert_product env nm attrs s = (Inr rows, s') \<Longrightarrow>
   \<exists>row. rows = [row] \<and> id_col row = of_nat (products_id_seq s + 1) \<and>
     products s' = products s @ [row] \<and> products_id_seq s' = products_id_seq s + 1 \<and>
     products_id_seq s < 2147483647"
  by (auto simp: insert_product_def Let_def split: sum.splits option.splits if_splits)

lemma insert_product_Inl:
  "insert_product env nm attrs s = (Inl e, s') \<Longrightarrow>
   s' = s \<or> (s' = s\<lparr>products_id_seq := products_id_seq s + 1\<rparr> \<and> products_id_seq s < 2147483647)"
  by (auto simp: insert_product_def Let_def split: sum.splits option.splits if_splits)

text \<open>The empty table is well formed, and every statement keeps the table so.\<close>

lemma wf_empty_store: "wf_store empty_store"
  by (simp add: wf_store_def empty_store_def)

lemma wf_store_append:
  assumes "wf_store s" and "products_id_seq s < 2147483647"
    and "id_col row = of_nat (products_id_seq s + 1)"
  shows "wf_store \<lparr>products = products s @ [row], products_id_seq = products_id_seq s + 1\<rparr>"
    and "\<forall>x\<in>set (products s). sint (id_col x) < sint (id_col row)"
    and "sint (id_col row) = int (products_id_seq s) + 1"
proof -
  from assms(1) have le: "\<forall>x\<in>set (products s). sint (id_col x) \<le> int (products_id_seq s)"
    and d: "distinct (map id_col (products s))"
    by (simp_all add: wf_store_def list_all_iff)
  have "sint (of_nat (products_id_seq s + 1) :: int4) = int (products_id_seq s + 1)"
    using assms(2) by (intro sint_of_nat4) linarith
  with assms(3) show i: "sint (id_col row) = int (products_id_seq s) + 1"
    by simp
  with le show lt: "\<forall>x\<in>set (products s). sint (id_col x) < sint (id_col row)" by auto
  then have "id_col row \<notin> id_col ` set (products s)" by auto
  with d le i show "wf_store \<lparr>products = products s @ [row], products_id_seq = products_id_seq s + 1\<rparr>"
    by (auto simp: wf_store_def list_all_iff)
qed

lemma wf_store_next:
  assumes "wf_store s"
  shows "wf_store (s\<lparr>products_id_seq := products_id_seq s + 1\<rparr>)"
proof -
  from assms have le: "\<forall>x\<in>set (products s). sint (id_col x) \<le> int (products_id_seq s)"
    and d: "distinct (map id_col (products s))"
    by (simp_all add: wf_store_def list_all_iff)
  from le have "\<forall>x\<in>set (products s).
      sint (id_col x) \<le> int (products_id_seq (s\<lparr>products_id_seq := products_id_seq s + 1\<rparr>))"
    by fastforce
  with d show ?thesis unfolding wf_store_def list_all_iff by simp
qed

lemma insert_product_wf:
  assumes "wf_store s"
  shows "wf_store (snd (insert_product env nm attrs s))"
proof (cases "insert_product env nm attrs s")
  case (Pair res s')
  show ?thesis
  proof (cases res)
    case (Inl e)
    with Pair insert_product_Inl [of env nm attrs s e s']
    have "s' = s \<or> s' = s\<lparr>products_id_seq := products_id_seq s + 1\<rparr>" by auto
    with assms wf_store_next [OF assms] Pair show ?thesis by auto
  next
    case (Inr rows)
    with Pair insert_product_Inr [of env nm attrs s rows s'] obtain row
      where r: "id_col row = of_nat (products_id_seq s + 1)"
        "products s' = products s @ [row]" "products_id_seq s' = products_id_seq s + 1"
        "products_id_seq s < 2147483647"
      by auto
    then have "s' = \<lparr>products = products s @ [row], products_id_seq = products_id_seq s + 1\<rparr>"
      by simp
    with wf_store_append(1) [OF assms r(4) r(1)] Pair show ?thesis by simp
  qed
qed

lemma db_query_wf: "wf_store s \<Longrightarrow> wf_store (snd (db_query env stmt s))"
proof (cases stmt)
  case (InsertProduct nm attrs)
  assume "wf_store s"
  then show ?thesis using InsertProduct insert_product_wf [of s env nm attrs]
    by (auto simp: db_query_def split: option.splits)
next
  case SelectAllByIdDesc
  assume "wf_store s"
  then show ?thesis using SelectAllByIdDesc by (auto simp: db_query_def split: option.splits)
next
  case (SelectById t)
  assume "wf_store s"
  then show ?thesis using SelectById
    by (auto simp: db_query_def select_by_id_def split: option.splits sum.splits)
next
  case (UpdateDescription d t)
  assume "wf_store s"
  then show ?thesis using UpdateDescription
    by (auto simp: db_query_def update_description_def Let_def wf_store_def list_all_iff
          map_id_col_set_description set_description_def
          simp del: map_map split: option.splits sum.splits)
next
  case (DeleteById t)
  assume "wf_store s"
  then show ?thesis using DeleteById
    by (auto simp: db_query_def delete_by_id_def wf_store_def list_all_iff distinct_map_filter
          split: option.splits sum.splits)
qed

subsection \<open>The generation client\<close>

lemma generateDescription_Inr:
  "try_body (answer svc p a cs) = Inr t \<Longrightarrow>
   generateDescription svc p a cs =
     (Inr t, cs @ [(modelVersion, input_for p a)],
      [ConsoleLog (ascii ''[AI Service] Sending prompt to Replicate (IBM Granite)...''),
       ConsoleLog (ascii ''[AI Service] Successfully received description from Replicate.'')])"
  by (simp add: generateDescription_def replicate_run_def Let_def answer_def input_for_def)

lemma generateDescription_Inl:
  "try_body (answer svc p a cs) = Inl error \<Longrightarrow>
   generateDescription svc p a cs =
     (Inl (Thrown (Some (or_default (message error) fallback_message))),
      cs @ [(modelVersion, input_for p a)],
      [ConsoleLog (ascii ''[AI Service] Sending prompt to Replicate (IBM Granite)...''),
       ConsoleError (ascii ''[AI Service] Error calling Replicate: '' @
                     show_message (message error))])"
  by (simp add: generateDescription_def replicate_run_def Let_def answer_def input_for_def)

lemma generateDescription_calls:
  "fst (snd (generateDescription svc p a cs)) = cs @ [(modelVersion, input_for p a)]"
proof (cases "try_body (answer svc p a cs)")
  case (Inl error)
  then show ?thesis by (simp only: generateDescription_Inl fst_conv snd_conv)
next
  case (Inr t)
  then show ?thesis by (simp only: generateDescription_Inr fst_conv snd_conv)
qed

lemma fallback_message_nonempty: "fallback_message \<noteq> []"
  by (simp add: fallback_message_def ascii_empty)

lemma generateDescription_error_message:
  assumes "generateDescription svc p a cs = (Inl err, cs', lg)"
  shows "\<exists>m. err = Thrown (Some m) \<and> m \<noteq> []"
proof (cases "try_body (answer svc p a cs)")
  case (Inl error)
  from generateDescription_Inl [OF Inl] assms
  have "err = Thrown (Some (or_default (message error) fallback_message))" by simp
  then show ?thesis
    using or_default_nonempty [OF fallback_message_nonempty] by blast
next
  case (Inr t)
  from generateDescription_Inr [OF Inr] assms show ?thesis by simp
qed

text \<open>
  What the client does when the remote call fails or returns no text: it makes exactly
  one call; a thrown message is passed on, and a thrown value with no message or an
  empty one gives the fallback message; fragments whose concatenation is empty give
  the message of the client's own check.
\<close>

lemma generateDescription_failures:
  "fst (snd (generateDescription svc p a cs)) = cs @ [(modelVersion, input_for p a)] \<and>
   (\<forall>m. answer svc p a cs = RunThrew (Thrown (Some m)) \<and> m \<noteq> [] \<longrightarrow>
      fst (generateDescription svc p a cs) = Inl (Thrown (Some m))) \<and>
   (answer svc p a cs = RunThrew (Thrown None) \<or> answer svc p a cs = RunThrew (Thrown (Some [])) \<longrightarrow>
      fst (generateDescription svc p a cs) = Inl (Thrown (Some fallback_message))) \<and>
   (\<forall>fs. answer svc p a cs = RunReturned (OutFragments fs) \<and> concat fs = [] \<longrightarrow>
      fst (generateDescription svc p a cs) = Inl (Thrown (Some no_text_message)))"
proof -
  have one: "fst (snd (generateDescription svc p a cs)) = cs @ [(modelVersion, input_for p a)]"
    by (rule generateDescription_calls)
  have threw: "fst (generateDescription svc p a cs) = Inl (Thrown (Some m))"
    if "answer svc p a cs = RunThrew (Thrown (Some m))" "m \<noteq> []" for m
  proof -
    have "try_body (answer svc p a cs) = Inl (Thrown (Some m))" using that by simp
    from generateDescription_Inl [OF this] that show ?thesis by simp
  qed
  have nomsg: "fst (generateDescription svc p a cs) = Inl (Thrown (Some fallback_message))"
    if "answer svc p a cs = RunThrew (Thrown None) \<or> answer svc p a cs = RunThrew (Thrown (Some []))"
  proof -
    from that obtain e where e: "try_body (answer svc p a cs) = Inl e"
      and m: "message e = None \<or> message e = Some []" by auto
    from generateDescription_Inl [OF e] m show ?thesis by auto
  qed
  have empty: "fst (generateDescription svc p a cs) = Inl (Thrown (Some no_text_message))"
    if "answer svc p a cs = RunReturned (OutFragments fs)" "concat fs = []" for fs
  proof -
    have "try_body (answer svc p a cs) = Inl (Thrown (Some no_text_message))"
      using that by simp
    from generateDescription_Inl [OF this] show ?thesis
      by (simp add: no_text_message_def ascii_empty)
  qed
  from one threw nomsg empty show ?thesis by blast
qed

text \<open>
  Claim C4. The claim fails where the remote service returns no output: \<open>output.join\<close>
  throws before the client's own check for an empty text is reached, the \<open>catch\<close>
  branch passes that TypeError's message on, and the error that the client fails with
  carries neither a message of the remote service, nor the fallback message, nor the
  message of the check. One call has been made.
\<close>

theorem generateDescription_absent_output:
  "answer absent_service (ascii ''Tee'') (Some (ascii ''Cotton'')) [] = RunReturned OutUndefined \<and>
   generateDescription absent_service (ascii ''Tee'') (Some (ascii ''Cotton'')) [] =
     (Inl (Thrown (Some join_of_undefined_message)),
      [(modelVersion, input_for (ascii ''Tee'') (Some (ascii ''Cotton'')))],
      [ConsoleLog (ascii ''[AI Service] Sending prompt to Replicate (IBM Granite)...''),
       ConsoleError (ascii ''[AI Service] Error calling Replicate: '' @ join_of_undefined_message)]) \<and>
   join_of_undefined_message \<noteq> fallback_message \<and>
   join_of_undefined_message \<noteq> no_text_message"
proof -
  have a: "answer absent_service (ascii ''Tee'') (Some (ascii ''Cotton'')) [] =
             RunReturned OutUndefined"
    by (simp add: answer_def absent_service_def)
  then have "try_body (answer absent_service (ascii ''Tee'') (Some (ascii ''Cotton'')) []) =
      Inl (Thrown (Some join_of_undefined_message))"
    by simp
  from generateDescription_Inl [OF this]
  have g: "generateDescription absent_service (ascii ''Tee'') (Some (ascii ''Cotton'')) [] =
     (Inl (Thrown (Some join_of_undefined_message)),
      [(modelVersion, input_for (ascii ''Tee'') (Some (ascii ''Cotton'')))],
      [ConsoleLog (ascii ''[AI Service] Sending prompt to Replicate (IBM Granite)...''),
       ConsoleError (ascii ''[AI Service] Error calling Replicate: '' @ join_of_undefined_message)])"
    by (simp add: join_of_undefined_message_def ascii_empty)
  have "join_of_undefined_message \<noteq> fallback_message"
    "join_of_undefined_message \<noteq> no_text_message"
    by (simp_all add: join_of_undefined_message_def fallback_message_def no_text_message_def
          ascii_def)
  with a g show ?thesis by blast
qed

subsection \<open>The generate-and-persist handler\<close>

lemma post_generate_description_success:
  assumes "read_id env1 i = Inr k" and "lookup s k = Some r" and "fault env1 = None"
    and "generateDescription svc (name r) (attributes r) cs = (Inr t, cs', lg)"
    and "fault env2 = None" and "read_id env2 i = Inr k" and "0 \<notin> set t"
  shows "post_generate_description env1 svc env2 i s cs =
           ((\<lparr>status = 200, body = JsonProduct (r\<lparr>description := Some (toWellFormed t)\<rparr>)\<rparr>,
             s\<lparr>products := map (set_description (Some (toWellFormed t)) k) (products s)\<rparr>,
             ConsoleLog (ascii ''[API] Calling AI Service for product: '' @ name r) # lg), cs')"
proof -
  from select_present [OF assms(2)] obtain rs
    where sel: "filter (\<lambda>r. id_col r = k) (products s) = r # rs" by blast
  from update_present [OF assms(2)] obtain rs'
    where upd: "filter (\<lambda>r. id_col r = k)
                  (map (set_description (Some (toWellFormed t)) k) (products s)) =
                  r\<lparr>description := Some (toWellFormed t)\<rparr> # rs'" by blast
  show ?thesis
    by (simp add: post_generate_description_def db_query_select_by_id [OF assms(3,1)] sel
          assms(4) db_query_update [OF assms(5) param_in_string [OF assms(7)] assms(6)] upd Let_def)
qed

lemma post_generate_description_failure:
  assumes "read_id env1 i = Inr k" and "lookup s k = Some r" and "fault env1 = None"
    and "generateDescription svc (name r) (attributes r) cs = (Inl err, cs', lg)"
  shows "post_generate_description env1 svc env2 i s cs =
           (generation_error err s
              (ConsoleLog (ascii ''[API] Calling AI Service for product: '' @ name r) # lg), cs')"
proof -
  from select_present [OF assms(2)] obtain rs
    where sel: "filter (\<lambda>r. id_col r = k) (products s) = r # rs" by blast
  show ?thesis
    by (simp add: post_generate_description_def db_query_select_by_id [OF assms(3,1)] sel
          assms(4) Let_def)
qed

lemma lookup_stussy: "lookup stussy_store 1 = Some stussy"
  by (simp add: lookup_def stussy_store_def stussy_def)

lemma healthy_fault: "fault (healthy t) = None"
  by (simp add: healthy_def)

lemma healthy_reads_1: "int4_input (healthy t) (ascii ''1'') = Inr (sint (1 :: int4))"
  by (simp add: healthy_def decimal_input_def ascii_def is_digit_def)

lemma healthy_reads_2: "int4_input (healthy t) (ascii ''2'') = Inr (sint (2 :: int4))"
  by (simp add: healthy_def decimal_input_def ascii_def is_digit_def)

lemma healthy_reads_2147483648:
  "int4_input (healthy t) (ascii ''2147483648'') = Inr 2147483648"
  by (simp add: healthy_def decimal_input_def ascii_def is_digit_def)

text \<open>
  Claim C1. For a product \<open>r\<close> that is in the store under the id that the path
  denotes, and a first query that the database answers, when \<open>generateDescription\<close>
  fails with an error, that error has a message, the handler answers 500 with exactly
  that message as its \<open>error\<close> payload, and the store after the request is the store
  before it; the row of the product, with the description it had, is still there.
\<close>

theorem failed_generation_keeps_store:
  assumes "int4_input env1 i = Inr (sint k)" and "lookup s k = Some r" and "fault env1 = None"
    and "generateDescription svc (name r) (attributes r) cs = (Inl err, cs', lg)"
  shows "\<exists>m s' lg'. message err = Some m \<and>
           post_generate_description env1 svc env2 i s cs =
             ((\<lparr>status = 500, body = JsonError m\<rparr>, s', lg'), cs') \<and>
           s' = s \<and> lookup s' k = Some r"
proof -
  from generateDescription_error_message [OF assms(4)] obtain m
    where m: "err = Thrown (Some m)" "m \<noteq> []" by blast
  have "post_generate_description env1 svc env2 i s cs =
          (generation_error err s
             (ConsoleLog (ascii ''[API] Calling AI Service for product: '' @ name r) # lg), cs')"
    by (rule post_generate_description_failure [OF read_id_ok [OF assms(1)] assms(2-4)])
  with m assms(2) show ?thesis by (simp add: generation_error_def)
qed

theorem failed_generation_keeps_store_witness:
  "int4_input (healthy 0) (ascii ''1'') = Inr (sint (1 :: int4)) \<and>
   lookup stussy_store 1 = Some stussy \<and> fault (healthy 0) = None \<and>
   fst (generateDescription failing_service (name stussy) (attributes stussy) []) =
     Inl (Thrown (Some (ascii ''Prediction failed''))) \<and>
   fst (fst (post_generate_description (healthy 0) failing_service (healthy 0) (ascii ''1'')
               stussy_store [])) =
     \<lparr>status = 500, body = JsonError (ascii ''Prediction failed'')\<rparr> \<and>
   fst (snd (fst (post_generate_description (healthy 0) failing_service (healthy 0) (ascii ''1'')
                    stussy_store []))) =
     stussy_store \<and>
   description stussy = Some (ascii ''A tee.'')"
proof -
  have "try_body (answer failing_service (name stussy) (attributes stussy) []) =
          Inl (Thrown (Some (ascii ''Prediction failed'')))"
    by (simp add: answer_def failing_service_def)
  note g = generateDescription_Inl [OF this]
  have ne: "ascii ''Prediction failed'' \<noteq> []" by (simp add: ascii_empty)
  from failed_generation_keeps_store
         [OF healthy_reads_1 [of 0] lookup_stussy healthy_fault [of 0] g,
          where ?env2.0 = "healthy 0"]
    g lookup_stussy healthy_fault [of 0] healthy_reads_1 [of 0] ne
  show ?thesis by (auto simp: stussy_def)
qed

lemma trim_great_shirt:
  "trim (concat [ascii ''Great '', ascii ''shirt.'']) = ascii ''Great shirt.''"
  by (simp add: trim_def is_whitespace_def ascii_def)

lemma trim_padded: "trim (concat padded_fragments) = ascii ''Great shirt.''"
  by (simp add: padded_fragments_def padded_first_def padded_second_def trim_def is_whitespace_def ascii_def)

lemma input_for_strings:
  "input_for nm (Some attrs) =
     \<lparr>prompt = prompt_head @ nm @ prompt_middle @ attrs @ prompt_tail, max_new_tokens = 300,
      min_new_tokens = 50, temperature = 8 / 10\<rparr>"
  by (simp add: input_for_def make_prompt_def)

text \<open>
  Claim C2, as amended. For all strings \<open>nm\<close> and \<open>attrs\<close>, the client makes one call
  whose prompt is the fixed template with \<open>nm\<close> and \<open>attrs\<close> embedded as they are, with
  the fixed sampling parameters. For every sequence of fragments that the service
  returns and whose concatenation is not empty, the client returns the text \<open>t\<close> that
  is left of the concatenation, in order and with no separator, when the white space at
  both ends is taken off: the concatenation is \<open>l @ t @ r\<close> with \<open>l\<close> and \<open>r\<close>
  white space only, and \<open>t\<close> neither begins nor ends with white space. When moreover
  the id of the path is read as the id of a product with that name and those
  attributes, the database answers both statements of the handler, and \<open>t\<close> holds no
  NUL character and no surrogate outside a pair, the handler answers 200 with the
  record carrying \<open>t\<close> as its description, and stores it. For the fragments
  \<open>Great \<close> and \<open>shirt.\<close> the text is \<open>Great shirt.\<close>
\<close>

theorem generateDescription_prompt_and_text:
  "fst (snd (generateDescription svc nm (Some attrs) cs)) =
     cs @ [(modelVersion,
            \<lparr>prompt = prompt_head @ nm @ prompt_middle @ attrs @ prompt_tail,
             max_new_tokens = 300, min_new_tokens = 50, temperature = 8 / 10\<rparr>)] \<and>
   (\<forall>fs. answer svc nm (Some attrs) cs = RunReturned (OutFragments fs) \<and> concat fs \<noteq> [] \<longrightarrow>
      (\<exists>t l r. fst (generateDescription svc nm (Some attrs) cs) = Inr t \<and>
         concat fs = l @ t @ r \<and> list_all is_whitespace l \<and> list_all is_whitespace r \<and>
         (t \<noteq> [] \<longrightarrow> \<not> is_whitespace (hd t) \<and> \<not> is_whitespace (last t)) \<and>
         t = trim (concat fs))) \<and>
   (\<forall>fs s i k r env1 env2.
      answer svc nm (Some attrs) cs = RunReturned (OutFragments fs) \<and> concat fs \<noteq> [] \<and>
      0 \<notin> set (trim (concat fs)) \<and> toWellFormed (trim (concat fs)) = trim (concat fs) \<and>
      int4_input env1 i = Inr (sint k) \<and> int4_input env2 i = Inr (sint k) \<and>
      lookup s k = Some r \<and> name r = nm \<and> attributes r = Some attrs \<and>
      fault env1 = None \<and> fault env2 = None \<longrightarrow>
      (\<exists>s' lg cs'.
         post_generate_description env1 svc env2 i s cs =
           ((\<lparr>status = 200, body = JsonProduct (r\<lparr>description := Some (trim (concat fs))\<rparr>)\<rparr>,
             s', lg), cs') \<and>
         lookup s' k = Some (r\<lparr>description := Some (trim (concat fs))\<rparr>))) \<and>
   trim (concat [ascii ''Great '', ascii ''shirt.'']) = ascii ''Great shirt.''"
proof -
  have calls: "fst (snd (generateDescription svc nm (Some attrs) cs)) =
     cs @ [(modelVersion,
            \<lparr>prompt = prompt_head @ nm @ prompt_middle @ attrs @ prompt_tail,
             max_new_tokens = 300, min_new_tokens = 50, temperature = 8 / 10\<rparr>)]"
    by (simp only: generateDescription_calls input_for_strings)
  have gen: "generateDescription svc nm (Some attrs) cs =
      (Inr (trim (concat fs)), cs @ [(modelVersion, input_for nm (Some attrs))],
       [ConsoleLog (ascii ''[AI Service] Sending prompt to Replicate (IBM Granite)...''),
        ConsoleLog (ascii ''[AI Service] Successfully received description from Replicate.'')])"
    if "answer svc nm (Some attrs) cs = RunReturned (OutFragments fs)" "concat fs \<noteq> []"
    for fs
  proof -
    have "try_body (answer svc nm (Some attrs) cs) = Inr (trim (concat fs))"
      using that by simp
    then show ?thesis by (rule generateDescription_Inr)
  qed
  have ret: "\<exists>t l r. fst (generateDescription svc nm (Some attrs) cs) = Inr t \<and>
         concat fs = l @ t @ r \<and> list_all is_whitespace l \<and> list_all is_whitespace r \<and>
         (t \<noteq> [] \<longrightarrow> \<not> is_whitespace (hd t) \<and> \<not> is_whitespace (last t)) \<and>
         t = trim (concat fs)"
    if "answer svc nm (Some attrs) cs = RunReturned (OutFragments fs)" "concat fs \<noteq> []"
    for fs
  proof -
    from gen [OF that]
    have "fst (generateDescription svc nm (Some attrs) cs) = Inr (trim (concat fs))" by simp
    with trim_decomposition [of "concat fs"] trim_ends [of "concat fs"] show ?thesis by blast
  qed
  have stored: "\<exists>s' lg cs'.
         post_generate_description env1 svc env2 i s cs =
           ((\<lparr>status = 200, body = JsonProduct (r\<lparr>description := Some (trim (concat fs))\<rparr>)\<rparr>,
             s', lg), cs') \<and>
         lookup s' k = Some (r\<lparr>description := Some (trim (concat fs))\<rparr>)"
    if a: "answer svc nm (Some attrs) cs = RunReturned (OutFragments fs)" "concat fs \<noteq> []"
      and t: "0 \<notin> set (trim (concat fs))" "toWellFormed (trim (concat fs)) = trim (concat fs)"
      and i: "int4_input env1 i = Inr (sint k)" "int4_input env2 i = Inr (sint k)"
      and r: "lookup s k = Some r" "name r = nm" "attributes r = Some attrs"
      and e: "fault env1 = None" "fault env2 = None"
    for fs s i k r env1 env2
  proof -
    from gen [OF a] r
    have "generateDescription svc (name r) (attributes r) cs =
      (Inr (trim (concat fs)), cs @ [(modelVersion, input_for nm (Some attrs))],
       [ConsoleLog (ascii ''[AI Service] Sending prompt to Replicate (IBM Granite)...''),
        ConsoleLog (ascii ''[AI Service] Successfully received description from Replicate.'')])"
      by simp
    from post_generate_description_success
           [OF read_id_ok [OF i(1)] r(1) e(1) this e(2) read_id_ok [OF i(2)] t(1)]
         lookup_after_update [OF r(1), of "Some (trim (concat fs))" ]
    show ?thesis unfolding t(2) by blast
  qed
  from calls ret stored trim_great_shirt show ?thesis by blast
qed

theorem generateDescription_prompt_and_text_witness:
  "answer padded_service (ascii ''Stussy 8-Ball Tee'') (Some (ascii ''Cotton, Black, Size L'')) [] =
     RunReturned (OutFragments padded_fragments) \<and>
   concat padded_fragments \<noteq> [] \<and>
   concat padded_fragments \<noteq> ascii ''Great shirt.'' \<and>
   0 \<notin> set (ascii ''Great shirt.'') \<and>
   int4_input (healthy 0) (ascii ''1'') = Inr (sint (1 :: int4)) \<and>
   lookup stussy_store 1 = Some stussy \<and> fault (healthy 0) = None \<and>
   fst (generateDescription padded_service (ascii ''Stussy 8-Ball Tee'')
          (Some (ascii ''Cotton, Black, Size L'')) []) =
     Inr (ascii ''Great shirt.'') \<and>
   (\<exists>s' lg cs'.
      post_generate_description (healthy 0) padded_service (healthy 0) (ascii ''1'') stussy_store [] =
        ((\<lparr>status = 200,
           body = JsonProduct (stussy\<lparr>description := Some (ascii ''Great shirt.'')\<rparr>)\<rparr>,
          s', lg), cs') \<and>
      lookup s' 1 = Some (stussy\<lparr>description := Some (ascii ''Great shirt.'')\<rparr>))"
proof -
  have a: "answer padded_service (ascii ''Stussy 8-Ball Tee'') (Some (ascii ''Cotton, Black, Size L'')) [] =
     RunReturned (OutFragments padded_fragments)"
    by (simp add: answer_def padded_service_def)
  have c: "concat padded_fragments \<noteq> []" by (simp add: padded_fragments_def padded_first_def padded_second_def)
  have c': "concat padded_fragments \<noteq> ascii ''Great shirt.''"
    by (simp add: padded_fragments_def padded_first_def padded_second_def ascii_def)
  have n: "name stussy = ascii ''Stussy 8-Ball Tee''"
    "attributes stussy = Some (ascii ''Cotton, Black, Size L'')"
    by (simp_all add: stussy_def)
  have z: "0 \<notin> set (ascii ''Great shirt.'')" by (simp add: ascii_def)
  then have z': "0 \<notin> set (trim (concat padded_fragments))" unfolding trim_padded .
  have w: "toWellFormed (trim (concat padded_fragments)) = trim (concat padded_fragments)"
    by (simp only: trim_padded toWellFormed_ascii)
  note t = generateDescription_prompt_and_text
             [of padded_service "ascii ''Stussy 8-Ball Tee''" "ascii ''Cotton, Black, Size L''" "[]"]
  from t [THEN conjunct2, THEN conjunct1] a c
  have 1: "fst (generateDescription padded_service (ascii ''Stussy 8-Ball Tee'')
      (Some (ascii ''Cotton, Black, Size L'')) []) = Inr (trim (concat padded_fragments))"
    by auto
  from t [THEN conjunct2, THEN conjunct2, THEN conjunct1, rule_format,
          of padded_fragments "healthy 0" "ascii ''1''" 1 "healthy 0" stussy_store stussy]
    a c z' w healthy_reads_1 [of 0] lookup_stussy n healthy_fault [of 0]
  have 2: "\<exists>s' lg cs'.
      post_generate_description (healthy 0) padded_service (healthy 0) (ascii ''1'') stussy_store [] =
        ((\<lparr>status = 200,
           body = JsonProduct (stussy\<lparr>description := Some (trim (concat padded_fragments))\<rparr>)\<rparr>,
          s', lg), cs') \<and>
      lookup s' 1 = Some (stussy\<lparr>description := Some (trim (concat padded_fragments))\<rparr>)"
    by blast
  from a c c' z healthy_reads_1 [of 0] lookup_stussy healthy_fault [of 0] 1 2
  show ?thesis by (simp only: trim_padded simp_thms)
qed

text \<open>
  Stated for every sequence of fragments, the property fails: when the service returns
  no fragment at all, the client does not return the empty text but fails.
\<close>

theorem generateDescription_empty_fragments_counterexample:
  "answer silent_service (ascii ''Stussy 8-Ball Tee'') (Some (ascii ''Cotton, Black, Size L'')) [] =
     RunReturned (OutFragments []) \<and>
   fst (generateDescription silent_service (ascii ''Stussy 8-Ball Tee'')
          (Some (ascii ''Cotton, Black, Size L'')) []) =
     Inl (Thrown (Some (ascii ''Replicate API did not return any text.''))) \<and>
   fst (generateDescription silent_service (ascii ''Stussy 8-Ball Tee'')
          (Some (ascii ''Cotton, Black, Size L'')) []) \<noteq>
     Inr (trim (concat []))"
proof -
  have a: "answer silent_service (ascii ''Stussy 8-Ball Tee'') (Some (ascii ''Cotton, Black, Size L'')) [] =
     RunReturned (OutFragments [])"
    by (simp add: answer_def silent_service_def)
  then have "try_body (answer silent_service (ascii ''Stussy 8-Ball Tee'')
      (Some (ascii ''Cotton, Black, Size L'')) []) = Inl (Thrown (Some no_text_message))"
    by simp
  from generateDescription_Inl [OF this] a show ?thesis
    by (simp add: no_text_message_def ascii_empty)
qed

subsection \<open>Failures of the persistence layer\<close>

lemma crud_store_failure:
  assumes "fst (db_query env stmt s) = Inl err"
  shows "stmt = InsertProduct nm attrs \<Longrightarrow> truthy nm \<Longrightarrow> truthy attrs \<Longrightarrow>
           post_products env nm attrs s = server_error err s"
    and "stmt = SelectAllByIdDesc \<Longrightarrow> get_products env s = server_error err s"
    and "stmt = SelectById i \<Longrightarrow> get_product env i s = server_error err s"
    and "stmt = UpdateDescription d i \<Longrightarrow> put_product env i d s = server_error err s"
    and "stmt = DeleteById i \<Longrightarrow> delete_product env i s = server_error err s"
proof -
  show "stmt = InsertProduct nm attrs \<Longrightarrow> truthy nm \<Longrightarrow> truthy attrs \<Longrightarrow>
           post_products env nm attrs s = server_error err s"
    using db_query_failed [OF assms] by (simp add: post_products_def)
  show "stmt = SelectAllByIdDesc \<Longrightarrow> get_products env s = server_error err s"
    using db_query_failed [OF assms] by (simp add: get_products_def)
  show "stmt = SelectById i \<Longrightarrow> get_product env i s = server_error err s"
    using db_query_failed [OF assms] by (simp add: get_product_def)
  show "stmt = UpdateDescription d i \<Longrightarrow> put_product env i d s = server_error err s"
    using db_query_failed [OF assms] by (simp add: put_product_def)
  show "stmt = DeleteById i \<Longrightarrow> delete_product env i s = server_error err s"
    using db_query_failed [OF assms] by (simp add: delete_product_def)
qed

lemma generate_first_query_failure:
  assumes "fst (db_query env1 (SelectById i) s) = Inl err"
  shows "post_generate_description env1 svc env2 i s cs = (generation_error err s [], cs)"
  using db_query_failed [OF assms] by (simp add: post_generate_description_def)

lemma generate_second_query_failure:
  assumes "read_id env1 i = Inr k" and "lookup s k = Some r" and "fault env1 = None"
    and "generateDescription svc (name r) (attributes r) cs = (Inr t, cs', lg)"
    and "fst (db_query env2 (UpdateDescription (JStr t) i) s) = Inl err"
  shows "post_generate_description env1 svc env2 i s cs =
           (generation_error err s
              (ConsoleLog (ascii ''[API] Calling AI Service for product: '' @ name r) # lg), cs')"
proof -
  from select_present [OF assms(2)] obtain rs
    where sel: "filter (\<lambda>r. id_col r = k) (products s) = r # rs" by blast
  have "db_query env2 (UpdateDescription (JStr t) i) s = (Inl err, s)"
    using db_query_failed [OF assms(5)] by simp
  then show ?thesis
    by (simp add: post_generate_description_def db_query_select_by_id [OF assms(3,1)] sel
          assms(4) Let_def)
qed

text \<open>
  Claim C3, as amended. In each of the five CRUD handlers, when the statement that the
  handler sends fails, the response is 500 with the fixed text \<open>Server Error\<close>, the
  same for every failure; the failure's message goes to the console only, and the store
  is unchanged. The generate-description handler differs: when its first or its second
  statement fails, it answers 500 with the failure's own message as the \<open>error\<close>
  payload, and with a fixed text only when the failure has no message or an empty one;
  it writes the message to the console as well.
\<close>

theorem store_failure_responses:
  "(truthy nm \<and> truthy attrs \<and> fst (db_query env (InsertProduct nm attrs) s) = Inl err \<longrightarrow>
      post_products env nm attrs s =
        (\<lparr>status = 500, body = Text (ascii ''Server Error'')\<rparr>, s,
         [ConsoleError (show_message (message err))])) \<and>
   (fst (db_query env SelectAllByIdDesc s) = Inl err \<longrightarrow>
      get_products env s =
        (\<lparr>status = 500, body = Text (ascii ''Server Error'')\<rparr>, s,
         [ConsoleError (show_message (message err))])) \<and>
   (fst (db_query env (SelectById i) s) = Inl err \<longrightarrow>
      get_product env i s =
        (\<lparr>status = 500, body = Text (ascii ''Server Error'')\<rparr>, s,
         [ConsoleError (show_message (message err))])) \<and>
   (fst (db_query env (UpdateDescription d i) s) = Inl err \<longrightarrow>
      put_product env i d s =
        (\<lparr>status = 500, body = Text (ascii ''Server Error'')\<rparr>, s,
         [ConsoleError (show_message (message err))])) \<and>
   (fst (db_query env (DeleteById i) s) = Inl err \<longrightarrow>
      delete_product env i s =
        (\<lparr>status = 500, body = Text (ascii ''Server Error'')\<rparr>, s,
         [ConsoleError (show_message (message err))])) \<and>
   (fst (db_query env (SelectById i) s) = Inl err \<longrightarrow>
      post_generate_description env svc env2 i s cs =
        ((\<lparr>status = 500,
           body = JsonError (or_default (message err)
                    (ascii ''Server Error: Failed to generate description''))\<rparr>,
          s,
          [ConsoleError (ascii ''[API] Error generating description: '' @
                         show_message (message err))]),
         cs)) \<and>
   (int4_input env1 i = Inr (sint k) \<and> lookup s k = Some r \<and> fault env1 = None \<and>
    generateDescription svc (name r) (attributes r) cs = (Inr t, cs', lg) \<and>
    fst (db_query env (UpdateDescription (JStr t) i) s) = Inl err \<longrightarrow>
      post_generate_description env1 svc env i s cs =
        ((\<lparr>status = 500,
           body = JsonError (or_default (message err)
                    (ascii ''Server Error: Failed to generate description''))\<rparr>,
          s,
          (ConsoleLog (ascii ''[API] Calling AI Service for product: '' @ name r) # lg) @
          [ConsoleError (ascii ''[API] Error generating description: '' @
                         show_message (message err))]),
         cs'))"
proof -
  have 1: "post_products env nm attrs s = server_error err s"
    if "truthy nm" "truthy attrs" "fst (db_query env (InsertProduct nm attrs) s) = Inl err"
    using crud_store_failure(1) [OF that(3) refl that(1,2)] .
  have 2: "get_products env s = server_error err s"
    if "fst (db_query env SelectAllByIdDesc s) = Inl err"
    using crud_store_failure(2) [OF that refl] .
  have 3: "get_product env i s = server_error err s"
    if "fst (db_query env (SelectById i) s) = Inl err"
    using crud_store_failure(3) [OF that refl] .
  have 4: "put_product env i d s = server_error err s"
    if "fst (db_query env (UpdateDescription d i) s) = Inl err"
    using crud_store_failure(4) [OF that refl] .
  have 5: "delete_product env i s = server_error err s"
    if "fst (db_query env (DeleteById i) s) = Inl err"
    using crud_store_failure(5) [OF that refl] .
  have 6: "post_generate_description env svc env2 i s cs = (generation_error err s [], cs)"
    if "fst (db_query env (SelectById i) s) = Inl err"
    using generate_first_query_failure [OF that] .
  have 7: "post_generate_description env1 svc env i s cs =
           (generation_error err s
              (ConsoleLog (ascii ''[API] Calling AI Service for product: '' @ name r) # lg), cs')"
    if "int4_input env1 i = Inr (sint k)" "lookup s k = Some r" "fault env1 = None"
       "generateDescription svc (name r) (attributes r) cs = (Inr t, cs', lg)"
       "fst (db_query env (UpdateDescription (JStr t) i) s) = Inl err"
    using generate_second_query_failure [OF read_id_ok [OF that(1)] that(2-5)] .
  from 1 2 3 4 5 6 7 show ?thesis
    unfolding server_error_def generation_error_def by simp
qed

lemma generate_stussy_shirt:
  "generateDescription shirt_service (name stussy) (attributes stussy) [] =
     (Inr (ascii ''Great shirt.''),
      [] @ [(modelVersion, input_for (name stussy) (attributes stussy))],
      [ConsoleLog (ascii ''[AI Service] Sending prompt to Replicate (IBM Granite)...''),
       ConsoleLog (ascii ''[AI Service] Successfully received description from Replicate.'')])"
proof -
  have "try_body (answer shirt_service (name stussy) (attributes stussy) []) =
          Inr (trim (concat [ascii ''Great '', ascii ''shirt.'']))"
    by (simp add: answer_def shirt_service_def ascii_empty)
  then have "try_body (answer shirt_service (name stussy) (attributes stussy) []) =
          Inr (ascii ''Great shirt.'')"
    by (simp only: trim_great_shirt)
  then show ?thesis by (rule generateDescription_Inr)
qed

lemma broken_fails:
  "fst (db_query (broken m) stmt s) = Inl (Thrown (Some m))"
  by (simp add: db_query_fault broken_def)

theorem store_failure_responses_witness:
  "fst (db_query (broken (ascii ''terminated''))
          (InsertProduct (JStr (ascii ''Tee'')) (JStr (ascii ''Cotton''))) stussy_store) =
     Inl (Thrown (Some (ascii ''terminated''))) \<and>
   post_products (broken (ascii ''terminated'')) (JStr (ascii ''Tee'')) (JStr (ascii ''Cotton''))
       stussy_store =
     (\<lparr>status = 500, body = Text (ascii ''Server Error'')\<rparr>, stussy_store,
      [ConsoleError (ascii ''terminated'')]) \<and>
   get_products (broken (ascii ''terminated'')) stussy_store =
     (\<lparr>status = 500, body = Text (ascii ''Server Error'')\<rparr>, stussy_store,
      [ConsoleError (ascii ''terminated'')]) \<and>
   get_product (broken (ascii ''terminated'')) (ascii ''1'') stussy_store =
     (\<lparr>status = 500, body = Text (ascii ''Server Error'')\<rparr>, stussy_store,
      [ConsoleError (ascii ''terminated'')]) \<and>
   put_product (broken (ascii ''terminated'')) (ascii ''1'') (JStr (ascii ''New'')) stussy_store =
     (\<lparr>status = 500, body = Text (ascii ''Server Error'')\<rparr>, stussy_store,
      [ConsoleError (ascii ''terminated'')]) \<and>
   delete_product (broken (ascii ''terminated'')) (ascii ''1'') stussy_store =
     (\<lparr>status = 500, body = Text (ascii ''Server Error'')\<rparr>, stussy_store,
      [ConsoleError (ascii ''terminated'')]) \<and>
   fst (post_generate_description (broken (ascii ''terminated'')) shirt_service (healthy 0)
          (ascii ''1'') stussy_store []) =
     (\<lparr>status = 500, body = JsonError (ascii ''terminated'')\<rparr>, stussy_store,
      [ConsoleError (ascii ''[API] Error generating description: '' @ ascii ''terminated'')]) \<and>
   fst (fst (post_generate_description (healthy 0) shirt_service (broken (ascii ''terminated''))
               (ascii ''1'') stussy_store [])) =
     \<lparr>status = 500, body = JsonError (ascii ''terminated'')\<rparr>"
proof -
  have ne: "ascii ''terminated'' \<noteq> []" "truthy (JStr (ascii ''Tee''))"
    "truthy (JStr (ascii ''Cotton''))"
    by (simp_all add: ascii_empty)
  note t = store_failure_responses
    [where env = "broken (ascii ''terminated'')" and s = stussy_store
       and err = "Thrown (Some (ascii ''terminated''))"
       and nm = "JStr (ascii ''Tee'')" and attrs = "JStr (ascii ''Cotton'')" and i = "ascii ''1''"
       and d = "JStr (ascii ''New'')" and k = 1
       and svc = shirt_service and ?env2.0 = "healthy 0" and ?env1.0 = "healthy 0" and cs = "[]"
       and r = stussy and t = "ascii ''Great shirt.''"
       and cs' = "[] @ [(modelVersion, input_for (name stussy) (attributes stussy))]"
       and lg = "[ConsoleLog (ascii ''[AI Service] Sending prompt to Replicate (IBM Granite)...''),
                  ConsoleLog (ascii ''[AI Service] Successfully received description from Replicate.'')]"]
  from t broken_fails lookup_stussy healthy_fault [of 0] healthy_reads_1 [of 0]
    generate_stussy_shirt ne
  show ?thesis by simp
qed

text \<open>
  Stated for every handler, the property fails: when the database refuses the
  connection at the first statement of the generate-description handler, the message of
  that failure is the \<open>error\<close> payload of the response.
\<close>

theorem generate_description_store_message_counterexample:
  "fst (db_query (broken (ascii ''connect ECONNREFUSED 10.0.0.5:5432'')) (SelectById (ascii ''1''))
          stussy_store) =
     Inl (Thrown (Some (ascii ''connect ECONNREFUSED 10.0.0.5:5432''))) \<and>
   fst (fst (post_generate_description (broken (ascii ''connect ECONNREFUSED 10.0.0.5:5432''))
               shirt_service (healthy 0) (ascii ''1'') stussy_store [])) =
     \<lparr>status = 500, body = JsonError (ascii ''connect ECONNREFUSED 10.0.0.5:5432'')\<rparr>"
  using generate_first_query_failure
          [where ?env1.0 = "broken (ascii ''connect ECONNREFUSED 10.0.0.5:5432'')"
             and i = "ascii ''1''" and s = stussy_store and svc = shirt_service
             and ?env2.0 = "healthy 0" and cs = "[]",
           OF broken_fails]
  by (simp add: broken_fails generation_error_def ascii_empty)

subsection \<open>Update, get and delete\<close>

lemma put_product_present:
  assumes "fault env = None" and "read_id env i = Inr k" and "param_in d = Inr d'"
    and "lookup s k = Some r"
  shows "put_product env i d s =
           (\<lparr>status = 200, body = JsonProduct (r\<lparr>description := d'\<rparr>)\<rparr>,
            s\<lparr>products := map (set_description d' k) (products s)\<rparr>, [])"
proof -
  from update_present [OF assms(4)] obtain rs
    where "filter (\<lambda>r. id_col r = k) (map (set_description d' k) (products s)) =
             r\<lparr>description := d'\<rparr> # rs" by blast
  then show ?thesis
    by (simp add: put_product_def db_query_update [OF assms(1,3,2)])
qed


lemma get_product_absent:
  assumes "fault env = None" and "read_id env i = Inr k" and "lookup s k = None"
  shows "get_product env i s =
           (\<lparr>status = 404, body = JsonError (ascii ''Product not found'')\<rparr>, s, [])"
  using select_absent [OF assms(3)]
  by (simp add: get_product_def db_query_select_by_id [OF assms(1,2)] not_found_def)

lemma delete_product_present:
  assumes "fault env = None" and "read_id env i = Inr k" and "lookup s k = Some r"
  shows "delete_product env i s =
           (\<lparr>status = 200, body = JsonMessage (ascii ''Product successfully deleted'')\<rparr>,
            s\<lparr>products := filter (\<lambda>r. id_col r \<noteq> k) (products s)\<rparr>, [])"
proof -
  from select_present [OF assms(3)] obtain rs
    where "filter (\<lambda>r. id_col r = k) (products s) = r # rs" by blast
  then show ?thesis
    by (simp add: delete_product_def db_query_delete [OF assms(1,2)])
qed

lemma delete_product_absent:
  assumes "fault env = None" and "read_id env i = Inr k" and "lookup s k = None"
  shows "delete_product env i s =
           (\<lparr>status = 404, body = JsonError (ascii ''Product not found'')\<rparr>, s, [])"
proof -
  from assms(3) have "filter (\<lambda>r. id_col r \<noteq> k) (products s) = products s"
    unfolding lookup_def by (rule filter_absent_all)
  with select_absent [OF assms(3)] show ?thesis
    by (simp add: delete_product_def db_query_delete [OF assms(1,2)] not_found_def)
qed

lemma out_of_range_fails:
  assumes "fault env = None" and "int4_input env i = Inr n"
    and "n < - 2147483648 \<or> 2147483647 < n"
  shows "db_query env (SelectById i) s = (Inl (Thrown (Some (out_of_range_message i))), s)"
    and "db_query env (DeleteById i) s = (Inl (Thrown (Some (out_of_range_message i))), s)"
    and "param_in d = Inr d' \<Longrightarrow>
         db_query env (UpdateDescription d i) s = (Inl (Thrown (Some (out_of_range_message i))), s)"
  using assms(1) read_id_out_of_range [OF assms(2,3)]
  by (simp_all add: db_query_def select_by_id_def delete_by_id_def update_description_def)

lemma lookup_stussy_2: "lookup stussy_store 2 = None"
  by (simp add: lookup_def stussy_store_def stussy_def)




text \<open>
  Claim C10. When the database answers: for a product \<open>r\<close> in the store under the id
  that the path denotes, an update whose body has no \<open>description\<close> field is not
  refused; it answers 200 with the record, and the stored description becomes NULL,
  whatever it was.
\<close>

theorem put_product_without_description_erases:
  assumes "fault env = None" and "int4_input env i = Inr (sint k)" and "lookup s k = Some r"
  shows "\<exists>s'. put_product env i JUndefined s =
           (\<lparr>status = 200, body = JsonProduct (r\<lparr>description := None\<rparr>)\<rparr>, s', []) \<and>
           lookup s' k = Some (r\<lparr>description := None\<rparr>)"
proof -
  have p: "param_in JUndefined = Inr None" by (simp add: param_in_def)
  from put_product_present [OF assms(1) read_id_ok [OF assms(2)] p assms(3)]
    lookup_after_update [OF assms(3), of None]
  show ?thesis by simp
qed

theorem put_product_without_description_erases_witness:
  "fault (healthy 0) = None \<and> int4_input (healthy 0) (ascii ''1'') = Inr (sint (1 :: int4)) \<and>
   lookup stussy_store 1 = Some stussy \<and>
   description stussy = Some (ascii ''A tee.'') \<and>
   (\<exists>s'. put_product (healthy 0) (ascii ''1'') JUndefined stussy_store =
           (\<lparr>status = 200, body = JsonProduct (stussy\<lparr>description := None\<rparr>)\<rparr>, s', []) \<and>
           lookup s' 1 = Some (stussy\<lparr>description := None\<rparr>))"
proof -
  have d: "description stussy = Some (ascii ''A tee.'')" by (simp add: stussy_def)
  from put_product_without_description_erases
         [OF healthy_fault [of 0] healthy_reads_1 [of 0] lookup_stussy]
    healthy_fault [of 0] healthy_reads_1 [of 0] lookup_stussy d
  show ?thesis by blast
qed

text \<open>
  Claim C9, as amended. When the database answers and the id of the path is read as
  the 32-bit integer \<open>k\<close>: deleting a product that is in the store under \<open>k\<close> answers
  200 with a confirmation message, which is not the record; the record is gone, the
  records under other ids stay, and a get of the same id then answers 404. When \<open>k\<close>
  is not in the store the delete answers 404 and changes nothing.
\<close>

theorem delete_product_then_get:
  assumes "fault env = None" and "fault env' = None"
    and "int4_input env i = Inr (sint k)" and "int4_input env' i = Inr (sint k)"
  shows "(\<forall>r. lookup s k = Some r \<longrightarrow>
            (\<exists>s'. delete_product env i s =
                     (\<lparr>status = 200, body = JsonMessage (ascii ''Product successfully deleted'')\<rparr>,
                      s', []) \<and>
                   JsonMessage (ascii ''Product successfully deleted'') \<noteq> JsonProduct r \<and>
                   lookup s' k = None \<and> (\<forall>j. j \<noteq> k \<longrightarrow> lookup s' j = lookup s j) \<and>
                   get_product env' i s' =
                     (\<lparr>status = 404, body = JsonError (ascii ''Product not found'')\<rparr>, s', []))) \<and>
         (lookup s k = None \<longrightarrow>
            delete_product env i s =
              (\<lparr>status = 404, body = JsonError (ascii ''Product not found'')\<rparr>, s, []))"
proof -
  note k = read_id_ok [OF assms(3)] and k' = read_id_ok [OF assms(4)]
  have present: "\<exists>s'. delete_product env i s =
                     (\<lparr>status = 200, body = JsonMessage (ascii ''Product successfully deleted'')\<rparr>,
                      s', []) \<and>
                   JsonMessage (ascii ''Product successfully deleted'') \<noteq> JsonProduct r \<and>
                   lookup s' k = None \<and> (\<forall>j. j \<noteq> k \<longrightarrow> lookup s' j = lookup s j) \<and>
                   get_product env' i s' =
                     (\<lparr>status = 404, body = JsonError (ascii ''Product not found'')\<rparr>, s', [])"
    if r: "lookup s k = Some r" for r
  proof -
    let ?s' = "s\<lparr>products := filter (\<lambda>r. id_col r \<noteq> k) (products s)\<rparr>"
    have gone: "lookup ?s' k = None" by (rule lookup_after_delete)
    have "delete_product env i s =
            (\<lparr>status = 200, body = JsonMessage (ascii ''Product successfully deleted'')\<rparr>, ?s', [])"
      by (rule delete_product_present [OF assms(1) k r])
    moreover have "\<forall>j. j \<noteq> k \<longrightarrow> lookup ?s' j = lookup s j"
      by (simp add: lookup_after_delete_other)
    moreover have "get_product env' i ?s' =
            (\<lparr>status = 404, body = JsonError (ascii ''Product not found'')\<rparr>, ?s', [])"
      by (rule get_product_absent [OF assms(2) k' gone])
    moreover have "JsonMessage (ascii ''Product successfully deleted'') \<noteq> JsonProduct r" by simp
    ultimately show ?thesis using gone by blast
  qed
  from present delete_product_absent [OF assms(1) k] show ?thesis by blast
qed

theorem delete_product_then_get_witness:
  "fault (healthy 0) = None \<and> int4_input (healthy 0) (ascii ''1'') = Inr (sint (1 :: int4)) \<and>
   int4_input (healthy 0) (ascii ''2'') = Inr (sint (2 :: int4)) \<and>
   lookup stussy_store 1 = Some stussy \<and> lookup stussy_store 2 = None \<and>
   (\<exists>s'. delete_product (healthy 0) (ascii ''1'') stussy_store =
            (\<lparr>status = 200, body = JsonMessage (ascii ''Product successfully deleted'')\<rparr>, s', []) \<and>
          lookup s' 1 = None \<and>
          get_product (healthy 0) (ascii ''1'') s' =
            (\<lparr>status = 404, body = JsonError (ascii ''Product not found'')\<rparr>, s', [])) \<and>
   delete_product (healthy 0) (ascii ''2'') stussy_store =
     (\<lparr>status = 404, body = JsonError (ascii ''Product not found'')\<rparr>, stussy_store, [])"
proof -
  note h = healthy_fault [of 0]
  from delete_product_then_get [OF h h healthy_reads_1 [of 0] healthy_reads_1 [of 0], of stussy_store]
    lookup_stussy
  have 1: "\<exists>s'. delete_product (healthy 0) (ascii ''1'') stussy_store =
            (\<lparr>status = 200, body = JsonMessage (ascii ''Product successfully deleted'')\<rparr>, s', []) \<and>
          lookup s' 1 = None \<and>
          get_product (healthy 0) (ascii ''1'') s' =
            (\<lparr>status = 404, body = JsonError (ascii ''Product not found'')\<rparr>, s', [])"
    by blast
  from delete_product_then_get [OF h h healthy_reads_2 [of 0] healthy_reads_2 [of 0], of stussy_store]
    lookup_stussy_2
  have 2: "delete_product (healthy 0) (ascii ''2'') stussy_store =
     (\<lparr>status = 404, body = JsonError (ascii ''Product not found'')\<rparr>, stussy_store, [])"
    by blast
  from h healthy_reads_1 [of 0] healthy_reads_2 [of 0] lookup_stussy lookup_stussy_2 1 2
  show ?thesis by blast
qed

text \<open>
  Stated for every id that is not in the store, the property fails: the id 2147483648
  is beyond the 32 bits of the column, no record has it, the database refuses the
  parameter, and the delete answers 500 where 404 was stated.
\<close>

theorem delete_product_out_of_range_counterexample:
  "int4_input (healthy 0) (ascii ''2147483648'') = Inr 2147483648 \<and>
   products stussy_store = [stussy] \<and> sint (id_col stussy) = 1 \<and>
   delete_product (healthy 0) (ascii ''2147483648'') stussy_store =
     (\<lparr>status = 500, body = Text (ascii ''Server Error'')\<rparr>, stussy_store,
      [ConsoleError (out_of_range_message (ascii ''2147483648''))])"
proof -
  have 1: "delete_product (healthy 0) (ascii ''2147483648'') stussy_store =
     (\<lparr>status = 500, body = Text (ascii ''Server Error'')\<rparr>, stussy_store,
      [ConsoleError (out_of_range_message (ascii ''2147483648''))])"
    using out_of_range_fails(2)
            [OF healthy_fault [of 0] healthy_reads_2147483648 [of 0], where s = stussy_store]
    by (simp add: delete_product_def server_error_def)
  have 2: "products stussy_store = [stussy]" "sint (id_col stussy) = 1"
    by (simp_all add: stussy_store_def stussy_def)
  from 1 2 healthy_reads_2147483648 [of 0] show ?thesis by blast
qed

subsection \<open>Create and list\<close>

lemma post_products_created:
  assumes "fault env = None" and "nm \<noteq> []" and "attrs \<noteq> []"
    and "0 \<notin> set nm" and "0 \<notin> set attrs"
    and "char_length (toWellFormed nm) \<le> 100" and "products_id_seq s < 2147483647"
  shows "post_products env (JStr nm) (JStr attrs) s =
           (\<lparr>status = 201,
             body = JsonProduct \<lparr>id_col = of_nat (products_id_seq s + 1),
                                 name = toWellFormed nm, attributes = Some (toWellFormed attrs),
                                 description = None, created_at = now env\<rparr>\<rparr>,
            \<lparr>products = products s @
               [\<lparr>id_col = of_nat (products_id_seq s + 1),
                 name = toWellFormed nm, attributes = Some (toWellFormed attrs),
                 description = None, created_at = now env\<rparr>],
             products_id_seq = products_id_seq s + 1\<rparr>, [])"
  using assms(2,3)
  by (simp add: post_products_def
        db_query_insert [OF assms(1) param_in_string [OF assms(4)] param_in_string [OF assms(5)]
                            assms(6,7)])

lemma post_products_201:
  assumes "post_products env nm attrs s = (\<lparr>status = 201, body = JsonProduct r\<rparr>, s', lg)"
  shows "products s' = products s @ [r] \<and> id_col r = of_nat (products_id_seq s + 1) \<and>
         products_id_seq s' = products_id_seq s + 1 \<and> products_id_seq s < 2147483647"
proof (cases "\<not> truthy nm \<or> \<not> truthy attrs")
  case True
  with assms show ?thesis by (simp add: post_products_def)
next
  case False
  show ?thesis
  proof (cases "db_query env (InsertProduct nm attrs) s")
    case (Pair res s1)
    show ?thesis
    proof (cases res)
      case (Inl err)
      with Pair False assms show ?thesis by (simp add: post_products_def server_error_def)
    next
      case (Inr rows)
      with Pair False assms have s1: "s1 = s'" and rows: "first_row rows = JsonProduct r"
        by (simp_all add: post_products_def)
      from Pair Inr have "insert_product env nm attrs s = (Inr rows, s1)"
        by (cases "fault env") (simp_all add: db_query_def)
      from insert_product_Inr [OF this] rows s1 show ?thesis by auto
    qed
  qed
qed

lemma insort_key_snoc:
  "f x \<le> f y \<Longrightarrow> insort_key f x (zs @ [y]) = insort_key f x zs @ [y]"
  by (induction zs) auto

lemma sort_key_snoc:
  "\<forall>x\<in>set xs. f x \<le> f y \<Longrightarrow> sort_key f (xs @ [y]) = sort_key f xs @ [y]"
  by (induction xs) (auto simp: insort_key_snoc)

lemma order_by_id_desc_snoc:
  "\<forall>x\<in>set xs. sint (id_col x) \<le> sint (id_col y) \<Longrightarrow>
   order_by_id_desc (xs @ [y]) = y # order_by_id_desc xs"
  by (simp add: order_by_id_desc_def sort_key_snoc)

lemma created_is_newest:
  assumes "wf_store s"
    and "post_products env nm attrs s = (\<lparr>status = 201, body = JsonProduct r\<rparr>, s', lg)"
  shows "wf_store s' \<and> order_by_id_desc (products s') = r # order_by_id_desc (products s) \<and>
         sint (id_col r) = int (products_id_seq s) + 1 \<and> products_id_seq s' = products_id_seq s + 1"
proof -
  from post_products_201 [OF assms(2)]
  have p: "products s' = products s @ [r]" and i: "id_col r = of_nat (products_id_seq s + 1)"
    and q: "products_id_seq s' = products_id_seq s + 1" and m: "products_id_seq s < 2147483647"
    by simp_all
  from p q have s': "s' = \<lparr>products = products s @ [r], products_id_seq = products_id_seq s + 1\<rparr>"
    by simp
  from wf_store_append(2) [OF assms(1) m i]
  have "\<forall>x\<in>set (products s). sint (id_col x) \<le> sint (id_col r)" by fastforce
  then have "order_by_id_desc (products s @ [r]) = r # order_by_id_desc (products s)"
    by (rule order_by_id_desc_snoc)
  moreover have "wf_store s'"
    unfolding s' by (rule wf_store_append(1) [OF assms(1) m i])
  ultimately show ?thesis using wf_store_append(3) [OF assms(1) m i] p q by simp
qed

lemma get_products_ok:
  "fault env = None \<Longrightarrow>
   get_products env s = (\<lparr>status = 200, body = JsonProducts (order_by_id_desc (products s))\<rparr>, s, [])"
  by (simp add: get_products_def db_query_select_all)

lemma sorted_wrt_rev_sort_key:
  "sorted_wrt (\<lambda>a b. f b \<le> f a) (rev (sort_key f xs))"
proof -
  have "sorted (map f (sort_key f xs))" by simp
  then have "sorted_wrt (\<lambda>a b. f a \<le> f b) (sort_key f xs)"
    by (simp add: sorted_map)
  then show ?thesis by (simp add: sorted_wrt_rev)
qed

text \<open>
  Claim C6. Whatever the database would do, a create request whose name or whose
  attributes is absent, \<open>null\<close> or the empty string is answered 400 with the message
  \<open>Name and attributes are required\<close>, and the store after it is the store before
  it: no statement is sent.
\<close>

theorem post_products_missing_field:
  assumes "nm \<in> {JUndefined, JNull, JStr []} \<or> attrs \<in> {JUndefined, JNull, JStr []}"
  shows "post_products env nm attrs s =
           (\<lparr>status = 400, body = JsonError (ascii ''Name and attributes are required'')\<rparr>, s, [])"
proof -
  from assms have "\<not> truthy nm \<or> \<not> truthy attrs" by auto
  then show ?thesis by (simp add: post_products_def)
qed

theorem post_products_missing_field_witness:
  "post_products (healthy 0) (JStr (ascii ''Tee'')) JUndefined stussy_store =
     (\<lparr>status = 400, body = JsonError (ascii ''Name and attributes are required'')\<rparr>,
      stussy_store, []) \<and>
   post_products (healthy 0) (JStr []) (JStr (ascii ''Cotton'')) stussy_store =
     (\<lparr>status = 400, body = JsonError (ascii ''Name and attributes are required'')\<rparr>,
      stussy_store, []) \<and>
   post_products (healthy 0) JNull JNull stussy_store =
     (\<lparr>status = 400, body = JsonError (ascii ''Name and attributes are required'')\<rparr>,
      stussy_store, [])"
  using post_products_missing_field [of "JStr (ascii ''Tee'')" JUndefined "healthy 0" stussy_store]
        post_products_missing_field [of "JStr []" "JStr (ascii ''Cotton'')" "healthy 0" stussy_store]
        post_products_missing_field [of JNull JNull "healthy 0" stussy_store]
  by simp

text \<open>The other falsy values of a body are refused in the same way.\<close>

lemma post_products_falsy:
  "\<not> truthy nm \<or> \<not> truthy attrs \<Longrightarrow>
   post_products env nm attrs s =
     (\<lparr>status = 400, body = JsonError (ascii ''Name and attributes are required'')\<rparr>, s, [])"
  by (simp add: post_products_def)





text \<open>
  Claim C8. When the database answers, the list operation answers 200 with all the
  stored records, each as often as it is stored, ordered by id descending, and
  leaves the store as it is. After three successful creates on a well-formed store,
  which gave the records \<open>r1\<close>, \<open>r2\<close> and \<open>r3\<close> in that order, the list is \<open>r3\<close>,
  \<open>r2\<close>, \<open>r1\<close>, followed by what the list was before the three creates; the ids of
  the three records increase in the order of creation.
\<close>

theorem get_products_newest_first:
  assumes "fault env = None"
  shows "(\<exists>rs. get_products env s = (\<lparr>status = 200, body = JsonProducts rs\<rparr>, s, []) \<and>
            mset rs = mset (products s) \<and>
            sorted_wrt (\<lambda>a b. sint (id_col b) \<le> sint (id_col a)) rs) \<and>
         (\<forall>rs0 e1 n1 a1 r1 s1 l1 e2 n2 a2 r2 s2 l2 e3 n3 a3 r3 s3 l3.
            wf_store s \<and>
            get_products env s = (\<lparr>status = 200, body = JsonProducts rs0\<rparr>, s, []) \<and>
            post_products e1 n1 a1 s = (\<lparr>status = 201, body = JsonProduct r1\<rparr>, s1, l1) \<and>
            post_products e2 n2 a2 s1 = (\<lparr>status = 201, body = JsonProduct r2\<rparr>, s2, l2) \<and>
            post_products e3 n3 a3 s2 = (\<lparr>status = 201, body = JsonProduct r3\<rparr>, s3, l3) \<longrightarrow>
            get_products env s3 =
              (\<lparr>status = 200, body = JsonProducts (r3 # r2 # r1 # rs0)\<rparr>, s3, []) \<and>
            sint (id_col r1) < sint (id_col r2) \<and> sint (id_col r2) < sint (id_col r3))"
proof -
  have all: "\<exists>rs. get_products env s = (\<lparr>status = 200, body = JsonProducts rs\<rparr>, s, []) \<and>
            mset rs = mset (products s) \<and>
            sorted_wrt (\<lambda>a b. sint (id_col b) \<le> sint (id_col a)) rs"
  proof -
    have "mset (order_by_id_desc (products s)) = mset (products s)"
      by (simp add: order_by_id_desc_def)
    moreover have "sorted_wrt (\<lambda>a b. sint (id_col b) \<le> sint (id_col a))
                     (order_by_id_desc (products s))"
      unfolding order_by_id_desc_def
      by (rule sorted_wrt_rev_sort_key [where f = "\<lambda>r. sint (id_col r)"])
    ultimately show ?thesis using get_products_ok [OF assms, of s] by blast
  qed
  have three: "get_products env s3 =
              (\<lparr>status = 200, body = JsonProducts (r3 # r2 # r1 # rs0)\<rparr>, s3, []) \<and>
            sint (id_col r1) < sint (id_col r2) \<and> sint (id_col r2) < sint (id_col r3)"
    if wf: "wf_store s"
      and g: "get_products env s = (\<lparr>status = 200, body = JsonProducts rs0\<rparr>, s, [])"
      and c1: "post_products e1 n1 a1 s = (\<lparr>status = 201, body = JsonProduct r1\<rparr>, s1, l1)"
      and c2: "post_products e2 n2 a2 s1 = (\<lparr>status = 201, body = JsonProduct r2\<rparr>, s2, l2)"
      and c3: "post_products e3 n3 a3 s2 = (\<lparr>status = 201, body = JsonProduct r3\<rparr>, s3, l3)"
    for rs0 e1 n1 a1 r1 s1 l1 e2 n2 a2 r2 s2 l2 e3 n3 a3 r3 s3 l3
  proof -
    from g get_products_ok [OF assms, of s] have rs0: "rs0 = order_by_id_desc (products s)"
      by simp
    from created_is_newest [OF wf c1]
    have wf1: "wf_store s1" and o1: "order_by_id_desc (products s1) = r1 # rs0"
      and i1: "sint (id_col r1) = int (products_id_seq s) + 1"
      and q1: "products_id_seq s1 = products_id_seq s + 1"
      by (simp_all add: rs0)
    from created_is_newest [OF wf1 c2]
    have wf2: "wf_store s2" and o2: "order_by_id_desc (products s2) = r2 # r1 # rs0"
      and i2: "sint (id_col r2) = int (products_id_seq s1) + 1"
      and q2: "products_id_seq s2 = products_id_seq s1 + 1"
      by (simp_all add: o1)
    from created_is_newest [OF wf2 c3]
    have o3: "order_by_id_desc (products s3) = r3 # r2 # r1 # rs0"
      and i3: "sint (id_col r3) = int (products_id_seq s2) + 1"
      by (simp_all add: o2)
    from i1 q1 i2 q2 i3
    have "sint (id_col r1) < sint (id_col r2)" "sint (id_col r2) < sint (id_col r3)" by simp_all
    with get_products_ok [OF assms, of s3] o3 show ?thesis by simp
  qed
  from all three show ?thesis by blast
qed

lemma three_creates:
  "post_products (healthy 1) (JStr (ascii ''R1'')) (JStr (ascii ''Cotton'')) empty_store =
     (\<lparr>status = 201, body = JsonProduct (example_row 1 (ascii ''R1''))\<rparr>,
      \<lparr>products = [example_row 1 (ascii ''R1'')], products_id_seq = 1\<rparr>, [])"
  "post_products (healthy 2) (JStr (ascii ''R2'')) (JStr (ascii ''Cotton''))
     \<lparr>products = [example_row 1 (ascii ''R1'')], products_id_seq = 1\<rparr> =
     (\<lparr>status = 201, body = JsonProduct (example_row 2 (ascii ''R2''))\<rparr>,
      \<lparr>products = [example_row 1 (ascii ''R1''), example_row 2 (ascii ''R2'')],
       products_id_seq = 2\<rparr>, [])"
  "post_products (healthy 3) (JStr (ascii ''R3'')) (JStr (ascii ''Cotton''))
     \<lparr>products = [example_row 1 (ascii ''R1''), example_row 2 (ascii ''R2'')],
      products_id_seq = 2\<rparr> =
     (\<lparr>status = 201, body = JsonProduct (example_row 3 (ascii ''R3''))\<rparr>,
      \<lparr>products = [example_row 1 (ascii ''R1''), example_row 2 (ascii ''R2''),
                   example_row 3 (ascii ''R3'')],
       products_id_seq = 3\<rparr>, [])"
proof -
  have z: "0 \<notin> set (ascii ''R1'')" "0 \<notin> set (ascii ''R2'')" "0 \<notin> set (ascii ''R3'')"
    "0 \<notin> set (ascii ''Cotton'')"
    by (simp_all add: ascii_def)
  have ne: "ascii ''R1'' \<noteq> []" "ascii ''R2'' \<noteq> []" "ascii ''R3'' \<noteq> []" "ascii ''Cotton'' \<noteq> []"
    by (simp_all add: ascii_empty)
  have l: "char_length (toWellFormed (ascii ''R1'')) \<le> 100"
    "char_length (toWellFormed (ascii ''R2'')) \<le> 100"
    "char_length (toWellFormed (ascii ''R3'')) \<le> 100"
    by (simp_all add: toWellFormed_ascii char_length_ascii)
  show "post_products (healthy 1) (JStr (ascii ''R1'')) (JStr (ascii ''Cotton'')) empty_store =
     (\<lparr>status = 201, body = JsonProduct (example_row 1 (ascii ''R1''))\<rparr>,
      \<lparr>products = [example_row 1 (ascii ''R1'')], products_id_seq = 1\<rparr>, [])"
    using post_products_created
            [OF healthy_fault [of 1] ne(1) ne(4) z(1) z(4) l(1), where s = empty_store]
    by (simp add: empty_store_def example_row_def toWellFormed_ascii healthy_def)
  show "post_products (healthy 2) (JStr (ascii ''R2'')) (JStr (ascii ''Cotton''))
     \<lparr>products = [example_row 1 (ascii ''R1'')], products_id_seq = 1\<rparr> =
     (\<lparr>status = 201, body = JsonProduct (example_row 2 (ascii ''R2''))\<rparr>,
      \<lparr>products = [example_row 1 (ascii ''R1''), example_row 2 (ascii ''R2'')],
       products_id_seq = 2\<rparr>, [])"
    using post_products_created
            [OF healthy_fault [of 2] ne(2) ne(4) z(2) z(4) l(2),
             where s = "\<lparr>products = [example_row 1 (ascii ''R1'')], products_id_seq = 1\<rparr>"]
    by (simp add: example_row_def toWellFormed_ascii healthy_def)
  show "post_products (healthy 3) (JStr (ascii ''R3'')) (JStr (ascii ''Cotton''))
     \<lparr>products = [example_row 1 (ascii ''R1''), example_row 2 (ascii ''R2'')],
      products_id_seq = 2\<rparr> =
     (\<lparr>status = 201, body = JsonProduct (example_row 3 (ascii ''R3''))\<rparr>,
      \<lparr>products = [example_row 1 (ascii ''R1''), example_row 2 (ascii ''R2''),
                   example_row 3 (ascii ''R3'')],
       products_id_seq = 3\<rparr>, [])"
    using post_products_created
            [OF healthy_fault [of 3] ne(3) ne(4) z(3) z(4) l(3),
             where s = "\<lparr>products = [example_row 1 (ascii ''R1''), example_row 2 (ascii ''R2'')],
                         products_id_seq = 2\<rparr>"]
    by (simp add: example_row_def toWellFormed_ascii healthy_def)
qed

theorem get_products_newest_first_witness:
  "fault (healthy 0) = None \<and> wf_store empty_store \<and>
   get_products (healthy 0) empty_store =
     (\<lparr>status = 200, body = JsonProducts []\<rparr>, empty_store, []) \<and>
   get_products (healthy 0)
     \<lparr>products = [example_row 1 (ascii ''R1''), example_row 2 (ascii ''R2''),
                  example_row 3 (ascii ''R3'')],
      products_id_seq = 3\<rparr> =
     (\<lparr>status = 200,
       body = JsonProducts [example_row 3 (ascii ''R3''), example_row 2 (ascii ''R2''),
                            example_row 1 (ascii ''R1'')]\<rparr>,
      \<lparr>products = [example_row 1 (ascii ''R1''), example_row 2 (ascii ''R2''),
                   example_row 3 (ascii ''R3'')],
       products_id_seq = 3\<rparr>, [])"
proof -
  note h = healthy_fault [of 0]
  have g: "get_products (healthy 0) empty_store =
             (\<lparr>status = 200, body = JsonProducts []\<rparr>, empty_store, [])"
    by (simp add: get_products_ok [OF h] order_by_id_desc_def empty_store_def)
  from get_products_newest_first [OF h, of empty_store] wf_empty_store g three_creates
  have "get_products (healthy 0)
     \<lparr>products = [example_row 1 (ascii ''R1''), example_row 2 (ascii ''R2''),
                  example_row 3 (ascii ''R3'')],
      products_id_seq = 3\<rparr> =
     (\<lparr>status = 200,
       body = JsonProducts [example_row 3 (ascii ''R3''), example_row 2 (ascii ''R2''),
                            example_row 1 (ascii ''R1'')]\<rparr>,
      \<lparr>products = [example_row 1 (ascii ''R1''), example_row 2 (ascii ''R2''),
                   example_row 3 (ascii ''R3'')],
       products_id_seq = 3\<rparr>, [])"
    by blast
  with h wf_empty_store g show ?thesis by blast
qed

subsection \<open>Every handler keeps the table well formed\<close>

lemma post_products_wf:
  assumes "wf_store s"
  shows "wf_store (fst (snd (post_products env nm attrs s)))"
proof (cases "db_query env (InsertProduct nm attrs) s")
  case (Pair res s1)
  with db_query_wf [OF assms, of env "InsertProduct nm attrs"] have "wf_store s1" by simp
  with Pair assms show ?thesis
    by (cases res) (simp_all add: post_products_def server_error_def)
qed

lemma get_products_wf:
  assumes "wf_store s"
  shows "wf_store (fst (snd (get_products env s)))"
proof (cases "db_query env SelectAllByIdDesc s")
  case (Pair res s1)
  with db_query_wf [OF assms, of env SelectAllByIdDesc] have "wf_store s1" by simp
  with Pair show ?thesis
    by (cases res) (simp_all add: get_products_def server_error_def)
qed

lemma get_product_wf:
  assumes "wf_store s"
  shows "wf_store (fst (snd (get_product env i s)))"
proof (cases "db_query env (SelectById i) s")
  case (Pair res s1)
  with db_query_wf [OF assms, of env "SelectById i"] have "wf_store s1" by simp
  with Pair show ?thesis
    by (cases res) (simp_all add: get_product_def server_error_def not_found_def)
qed

lemma put_product_wf:
  assumes "wf_store s"
  shows "wf_store (fst (snd (put_product env i d s)))"
proof (cases "db_query env (UpdateDescription d i) s")
  case (Pair res s1)
  with db_query_wf [OF assms, of env "UpdateDescription d i"] have "wf_store s1" by simp
  with Pair show ?thesis
    by (cases res) (simp_all add: put_product_def server_error_def not_found_def)
qed

lemma delete_product_wf:
  assumes "wf_store s"
  shows "wf_store (fst (snd (delete_product env i s)))"
proof (cases "db_query env (DeleteById i) s")
  case (Pair res s1)
  with db_query_wf [OF assms, of env "DeleteById i"] have "wf_store s1" by simp
  with Pair show ?thesis
    by (cases res) (simp_all add: delete_product_def server_error_def not_found_def)
qed

lemma post_generate_description_wf:
  assumes "wf_store s"
  shows "wf_store (fst (snd (fst (post_generate_description env1 svc env2 i s cs))))"
proof (cases "db_query env1 (SelectById i) s")
  case (Pair res s1)
  with db_query_wf [OF assms, of env1 "SelectById i"] have wf1: "wf_store s1" by simp
  show ?thesis
  proof (cases res)
    case (Inl err)
    with Pair wf1 show ?thesis
      by (simp add: post_generate_description_def generation_error_def)
  next
    case (Inr productResult)
    show ?thesis
    proof (cases productResult)
      case Nil
      with Pair Inr wf1 show ?thesis
        by (simp add: post_generate_description_def not_found_def)
    next
      case (Cons product rest)
      obtain g cs' lg
        where gen: "generateDescription svc (name product) (attributes product) cs = (g, cs', lg)"
        by (cases "generateDescription svc (name product) (attributes product) cs")
      show ?thesis
      proof (cases g)
        case (Inl err)
        with Pair Inr Cons gen wf1 show ?thesis
          by (simp add: post_generate_description_def generation_error_def)
      next
        case (Inr t)
        obtain res2 s2 where q2: "db_query env2 (UpdateDescription (JStr t) i) s1 = (res2, s2)"
          by (cases "db_query env2 (UpdateDescription (JStr t) i) s1")
        with db_query_wf [OF wf1, of env2 "UpdateDescription (JStr t) i"] have "wf_store s2"
          by simp
        with Pair \<open>res = Inr productResult\<close> Cons gen Inr q2 show ?thesis
          by (cases res2) (simp_all add: post_generate_description_def generation_error_def)
      qed
    qed
  qed
qed

end
